theory Spec2Isabelle
  imports Main
begin

section \<open>Values of the host language\<close>

text \<open>
  The engine of \<^verbatim>\<open>src/index.js\<close> is one exported function that takes a tag (or a node),
  an option bag and child nodes, and mutates one node through the platform's
  primitives. The values it inspects are JavaScript values; the model keeps the kinds
  the code distinguishes (\<^verbatim>\<open>typeof\<close>, \<^verbatim>\<open>isArray\<close>, truthiness, string coercion).

  A property key is a string or a symbol (\<^verbatim>\<open>Reflect.ownKeys\<close> yields both). A string is
  a list of code units below 256, read as Latin-1. A number is carried by the two things
  the code observes of it: whether it is truthy (neither zero nor NaN) and the string it
  coerces to, so that fractions, exponents, NaN and the infinities are all values of
  the model. A function is carried by its source text, which identifies it and is what
  its string coercion yields; an object is the list of its own data properties in
  enumeration order, and equal values stand for the same object.
\<close>

datatype pkey = SKey string | YKey nat

datatype error =
    TypeError
  | ReferenceError
  | SyntaxError
  | InvalidCharacterError
  | HierarchyRequestError
  | Thrown string

datatype jsval =
    Undefined
  | Null
  | Bool bool
  | Num bool string
  | BigInt int
  | Str string
  | Sym nat
  | Fun string
  | Arr "jsval list"
  | Obj "(pkey \<times> jsval) list"
  | DocV nat

datatype jstype =
  TUndefined | TObject | TBoolean | TNumber | TBigint | TString | TSymbol | TFunction

fun typeof :: "jsval \<Rightarrow> jstype" where
  "typeof Undefined = TUndefined"
| "typeof Null = TObject"
| "typeof (Bool b) = TBoolean"
| "typeof (Num t s) = TNumber"
| "typeof (BigInt i) = TBigint"
| "typeof (Str s) = TString"
| "typeof (Sym y) = TSymbol"
| "typeof (Fun f) = TFunction"
| "typeof (Arr vs) = TObject"
| "typeof (Obj es) = TObject"
| "typeof (DocV d) = TObject"

text \<open>Truthiness, as \<^verbatim>\<open>!!v\<close>, \<^verbatim>\<open>!v\<close> and \<^verbatim>\<open>a || b\<close> read it.\<close>

fun truthy :: "jsval \<Rightarrow> bool" where
  "truthy Undefined = False"
| "truthy Null = False"
| "truthy (Bool b) = b"
| "truthy (Num t s) = t"
| "truthy (BigInt i) = (i \<noteq> 0)"
| "truthy (Str s) = (s \<noteq> [])"
| "truthy (Sym y) = True"
| "truthy (Fun f) = True"
| "truthy (Arr vs) = True"
| "truthy (Obj es) = True"
| "truthy (DocV d) = True"

fun digits :: "nat \<Rightarrow> string" where
  "digits n =
     (if n < 10 then [char_of (48 + n)]
      else digits (n div 10) @ [char_of (48 + n mod 10)])"

declare digits.simps [simp del]

definition bigint_text :: "int \<Rightarrow> string" where
  "bigint_text i = (if i < 0 then CHR ''-'' # digits (nat (- i)) else digits (nat i))"

definition upper_ascii :: "char \<Rightarrow> bool" where
  "upper_ascii c = (65 \<le> (of_char c :: nat) \<and> (of_char c :: nat) \<le> 90)"

definition lower_ascii :: "char \<Rightarrow> bool" where
  "lower_ascii c = (97 \<le> (of_char c :: nat) \<and> (of_char c :: nat) \<le> 122)"

definition upper_latin :: "char \<Rightarrow> bool" where
  \<comment> \<open>the upper-case letters of Latin-1 beyond ASCII: U+00C0 to U+00DE without U+00D7\<close>
  "upper_latin c =
     (192 \<le> (of_char c :: nat) \<and> (of_char c :: nat) \<le> 222 \<and> (of_char c :: nat) \<noteq> 215)"

definition shift_case :: "char \<Rightarrow> char" where
  \<comment> \<open>the code unit 32 above an upper-case letter: the same bits with the sixth one set\<close>
  "shift_case c =
     (case c of Char b0 b1 b2 b3 b4 b5 b6 b7 \<Rightarrow> Char b0 b1 b2 b3 b4 True b6 b7)"

definition lower_char :: "char \<Rightarrow> char" where
  "lower_char c = (if upper_ascii c \<or> upper_latin c then shift_case c else c)"

definition toLowerCase :: "string \<Rightarrow> string" where
  \<comment> \<open>\<^verbatim>\<open>String.prototype.toLowerCase\<close>\<close>
  "toLowerCase s = map lower_char s"

definition ascii_lowercase :: "string \<Rightarrow> string" where
  \<comment> \<open>the platform's ASCII lower-casing, which leaves every other code unit alone\<close>
  "ascii_lowercase s = map (\<lambda>c. if upper_ascii c then shift_case c else c) s"

definition startsWith :: "string \<Rightarrow> string \<Rightarrow> bool" where
  "startsWith s p = (take (length p) s = p)"

definition slice :: "nat \<Rightarrow> string \<Rightarrow> string" where
  "slice i s = drop i s"

definition get_prop :: "(pkey \<times> jsval) list \<Rightarrow> pkey \<Rightarrow> jsval" where
  \<comment> \<open>\<^verbatim>\<open>object[key]\<close> on own entries: a missing key reads as undefined.\<close>
  "get_prop es k = (case map_of es k of None \<Rightarrow> Undefined | Some x \<Rightarrow> x)"

section \<open>Nodes, documents and the ambient environment\<close>

text \<open>
  A node is what the engine can observe and change. Whether the node is an HTML element
  of an HTML document decides whether the platform lower-cases the attribute names it
  is handed; the members are the keys with \<^verbatim>\<open>key in node\<close>. The attribute surface is the
  state the attribute, dataset and class-list primitives all write to (the dataset is
  the platform's view of the \<^verbatim>\<open>data-\<close> attributes, the class list its view of the
  \<^verbatim>\<open>class\<close> attribute); listeners are kept with their capture flag and their options.
  What a direct property write does to a node is the platform's business: it is a
  parameter of the environment, may change any surface and may throw.

  The last field is a history of the turn-by-turn outcomes of the options loop: every
  platform call the loop completes is entered with the category the rule that made it
  belongs to. Nothing reads it; the statements about outcome categories are about it.
\<close>

datatype child = ChildNode nat | ChildText string

datatype outcome =
    PropertyWrite pkey jsval
  | AttributeWrite pkey jsval
  | BooleanToggle string bool
  | DatasetEntry string jsval
  | AriaAttribute string jsval
  | ClassListAddition jsval
  | ListenerRegistration string "jsval list"

datatype category =
  PropertyWriting | AttributeWriting | DatasetMerging | AriaExpanding | ClassListAdding
  | ListenerRegistering


record node =
  html :: bool
  members :: "pkey list"
  props :: "pkey \<rightharpoonup> jsval"
  attrs :: "string \<rightharpoonup> string"
  listeners :: "(string \<times> jsval \<times> bool \<times> jsval) list"
  children :: "child list"
  history :: "outcome list"

record document =
  querySelector :: "string \<Rightarrow> error + nat option"
  createElementNS :: "string \<Rightarrow> string \<Rightarrow> error + node"
  createElement :: "string \<Rightarrow> string option \<Rightarrow> error + node"

record store =
  nodes :: "nat \<Rightarrow> node"
  fresh :: nat

text \<open>
  The environment of a call: the bindings of the two identifiers the function reads
  from the global scope (\<^verbatim>\<open>document\<close> at line 18 and \<^verbatim>\<open>isSVG\<close> at line 68, which is
  declared with \<^verbatim>\<open>const\<close> inside the block of lines 27 to 41 and so is not in scope in
  the options loop); the documents that values of kind \<open>DocV\<close> refer to; the builtins
  whose result depends on an object's own methods (\<^verbatim>\<open>JSON.stringify\<close>, the string
  coercion of an object, the own properties of functions and documents, each with its
  enumerable flag); and the platform: its check of an attribute name, its setter for a
  member of a node, its normal form of a style text, which values are abort signals (and
  whether aborted), and which children a node accepts.
\<close>

record env =
  global_document :: "jsval option"
  global_isSVG :: "jsval option"
  documents :: "nat \<Rightarrow> document"
  stringify :: "jsval \<Rightarrow> error + string"
  object_text :: "jsval \<Rightarrow> error + string"
  host_props :: "jsval \<Rightarrow> (pkey \<times> jsval \<times> bool) list"
  valid_name :: "string \<Rightarrow> bool"
  put :: "pkey \<Rightarrow> jsval \<Rightarrow> node \<Rightarrow> error + node"
  css :: "string \<Rightarrow> string"
  abort_signal :: "jsval \<Rightarrow> bool option"
  insertable :: "store \<Rightarrow> nat \<Rightarrow> child list \<Rightarrow> bool"

datatype tag = TagString string | TagNode nat

definition has :: "node \<Rightarrow> pkey \<Rightarrow> bool" where
  \<comment> \<open>\<^verbatim>\<open>key in node\<close>\<close>
  "has n k = (k \<in> set (members n))"

definition own_props :: "env \<Rightarrow> jsval \<Rightarrow> (pkey \<times> jsval) list" where
  "own_props g v = map (\<lambda>(k, x, e). (k, x)) (host_props g v)"

definition member_of :: "env \<Rightarrow> jsval \<Rightarrow> string \<Rightarrow> jsval" where
  \<comment> \<open>\<^verbatim>\<open>v.name\<close> for one of the names the code and the platform read off a value\<close>
  "member_of g v name =
     (case v of
        Obj es \<Rightarrow> get_prop es (SKey name)
      | Fun f \<Rightarrow> get_prop (own_props g v) (SKey name)
      | DocV d \<Rightarrow> get_prop (own_props g v) (SKey name)
      | _ \<Rightarrow> Undefined)"

fun toString :: "env \<Rightarrow> jsval \<Rightarrow> error + string" where
  "toString g Undefined = Inr ''undefined''"
| "toString g Null = Inr ''null''"
| "toString g (Bool b) = Inr (if b then ''true'' else ''false'')"
| "toString g (Num t s) = Inr s"
| "toString g (BigInt i) = Inr (bigint_text i)"
| "toString g (Str s) = Inr s"
| "toString g (Sym y) = Inl TypeError"
| "toString g (Fun f) = Inr f"
| "toString g (Arr vs) = object_text g (Arr vs)"
| "toString g (Obj es) = object_text g (Obj es)"
| "toString g (DocV d) = object_text g (DocV d)"

section \<open>The platform's mutation primitives\<close>

definition attribute_name :: "node \<Rightarrow> string \<Rightarrow> string" where
  \<comment> \<open>the name an attribute is stored under\<close>
  "attribute_name n nm = (if html n then ascii_lowercase nm else nm)"

definition setAttribute :: "env \<Rightarrow> pkey \<Rightarrow> jsval \<Rightarrow> node \<Rightarrow> error + node" where
  "setAttribute g name v n =
     (case name of
        YKey y \<Rightarrow> Inl TypeError
      | SKey nm \<Rightarrow>
          (case toString g v of
             Inl e \<Rightarrow> Inl e
           | Inr s \<Rightarrow>
               (if valid_name g nm
                then Inr (n\<lparr>attrs := (attrs n)(attribute_name n nm \<mapsto> s)\<rparr>)
                else Inl InvalidCharacterError)))"

definition toggleAttribute :: "env \<Rightarrow> string \<Rightarrow> bool \<Rightarrow> node \<Rightarrow> error + node" where
  "toggleAttribute g nm force n =
     (if \<not> valid_name g nm then Inl InvalidCharacterError
      else if force
      then (if attrs n (attribute_name n nm) = None
            then Inr (n\<lparr>attrs := (attrs n)(attribute_name n nm \<mapsto> [])\<rparr>)
            else Inr n)
      else Inr (n\<lparr>attrs := (attrs n)(attribute_name n nm := None)\<rparr>))"

definition option_arg :: "jsval list \<Rightarrow> jsval" where
  \<comment> \<open>the third argument of a registration, if there is one\<close>
  "option_arg rest = (case rest of [] \<Rightarrow> Undefined | x # xs \<Rightarrow> x)"

definition is_dictionary :: "jsval \<Rightarrow> bool" where
  \<comment> \<open>the options are read as a dictionary when undefined, null or an object, and as a
      boolean otherwise\<close>
  "is_dictionary x = (x = Undefined \<or> typeof x = TObject \<or> typeof x = TFunction)"

definition capture_of :: "env \<Rightarrow> jsval \<Rightarrow> bool" where
  "capture_of g x = (if is_dictionary x then truthy (member_of g x ''capture'') else truthy x)"

definition signal_of :: "env \<Rightarrow> jsval \<Rightarrow> jsval" where
  "signal_of g x = (if is_dictionary x then member_of g x ''signal'' else Undefined)"

definition registered :: "string \<Rightarrow> jsval \<Rightarrow> bool \<Rightarrow> node \<Rightarrow> bool" where
  "registered ty cb c n = ((ty, cb, c) \<in> set (map (\<lambda>(t, f, b, x). (t, f, b)) (listeners n)))"

definition addEventListener :: "env \<Rightarrow> string \<Rightarrow> jsval list \<Rightarrow> node \<Rightarrow> error + node" where
  "addEventListener g ty args n =
     (case args of
        [] \<Rightarrow> Inl TypeError
      | cb # rest \<Rightarrow>
          (if \<not> (cb = Null \<or> cb = Undefined \<or> typeof cb = TObject \<or> typeof cb = TFunction)
           then Inl TypeError
           else if signal_of g (option_arg rest) \<noteq> Undefined
                   \<and> abort_signal g (signal_of g (option_arg rest)) = None
           then Inl TypeError
           else if cb = Null \<or> cb = Undefined then Inr n
           else if abort_signal g (signal_of g (option_arg rest)) = Some True
                   \<and> signal_of g (option_arg rest) \<noteq> Undefined
           then Inr n
           else if registered ty cb (capture_of g (option_arg rest)) n then Inr n
           else Inr (n\<lparr>listeners := listeners n
                         @ [(ty, cb, capture_of g (option_arg rest), option_arg rest)]\<rparr>)))"

fun toStrings :: "env \<Rightarrow> jsval list \<Rightarrow> error + string list" where
  "toStrings g [] = Inr []"
| "toStrings g (v # vs) =
     (case toString g v of
        Inl e \<Rightarrow> Inl e
      | Inr s \<Rightarrow> (case toStrings g vs of Inl e \<Rightarrow> Inl e | Inr ss \<Rightarrow> Inr (s # ss)))"

definition spread :: "jsval \<Rightarrow> error + jsval list" where
  \<comment> \<open>\<^verbatim>\<open>...v\<close>: arrays and strings are iterable, nothing else of the model is.\<close>
  "spread v =
     (case v of
        Arr vs \<Rightarrow> Inr vs
      | Str s \<Rightarrow> Inr (map (\<lambda>c. Str [c]) s)
      | _ \<Rightarrow> Inl TypeError)"

definition is_space :: "char \<Rightarrow> bool" where
  \<comment> \<open>ASCII whitespace: tab, line feed, form feed, carriage return, space\<close>
  "is_space c = ((of_char c :: nat) \<in> {9, 10, 12, 13, 32})"

fun split_tokens :: "string \<Rightarrow> string \<Rightarrow> string list" where
  "split_tokens cur [] = (if cur = [] then [] else [cur])"
| "split_tokens cur (c # cs) =
     (if is_space c then (if cur = [] then split_tokens [] cs else cur # split_tokens [] cs)
      else split_tokens (cur @ [c]) cs)"

fun add_tokens :: "string list \<Rightarrow> string list \<Rightarrow> string list" where
  "add_tokens cs [] = cs"
| "add_tokens cs (t # ts) = add_tokens (if t \<in> set cs then cs else cs @ [t]) ts"

fun check_tokens :: "string list \<Rightarrow> error option" where
  "check_tokens [] = None"
| "check_tokens (t # ts) =
     (if t = [] then Some SyntaxError
      else if list_ex is_space t then Some InvalidCharacterError
      else check_tokens ts)"

fun join_tokens :: "string list \<Rightarrow> string" where
  "join_tokens [] = []"
| "join_tokens [t] = t"
| "join_tokens (t # u # ts) = t @ CHR '' '' # join_tokens (u # ts)"

definition class_tokens :: "node \<Rightarrow> string list" where
  \<comment> \<open>the class list: the \<^verbatim>\<open>class\<close> attribute parsed as an ordered set of tokens\<close>
  "class_tokens n =
     (case attrs n ''class'' of None \<Rightarrow> [] | Some s \<Rightarrow> add_tokens [] (split_tokens [] s))"

definition classList_add :: "env \<Rightarrow> jsval \<Rightarrow> node \<Rightarrow> error + node" where
  \<comment> \<open>\<^verbatim>\<open>node.classList.add(...v)\<close>\<close>
  "classList_add g v n =
     (case spread v of
        Inl e \<Rightarrow> Inl e
      | Inr vs \<Rightarrow>
          (case toStrings g vs of
             Inl e \<Rightarrow> Inl e
           | Inr ts \<Rightarrow>
               (case check_tokens ts of
                  Some e \<Rightarrow> Inl e
                | None \<Rightarrow>
                    (if attrs n ''class'' = None \<and> add_tokens (class_tokens n) ts = []
                     then Inr n
                     else Inr (n\<lparr>attrs := (attrs n)
                                 (''class'' \<mapsto> join_tokens (add_tokens (class_tokens n) ts))\<rparr>)))))"

fun hyphen_lower :: "string \<Rightarrow> bool" where
  "hyphen_lower (a # b # cs) = ((a = CHR ''-'' \<and> lower_ascii b) \<or> hyphen_lower (b # cs))"
| "hyphen_lower cs = False"

definition data_attribute :: "string \<Rightarrow> string" where
  \<comment> \<open>the attribute a dataset name stands for\<close>
  "data_attribute s =
     ''data-'' @ concat (map (\<lambda>c. if upper_ascii c then [CHR ''-'', shift_case c] else [c]) s)"

definition dataset_set :: "env \<Rightarrow> string \<Rightarrow> jsval \<Rightarrow> node \<Rightarrow> error + node" where
  \<comment> \<open>\<^verbatim>\<open>node.dataset[s] = x\<close>\<close>
  "dataset_set g s x n =
     (case toString g x of
        Inl e \<Rightarrow> Inl e
      | Inr t \<Rightarrow>
          (if hyphen_lower s then Inl SyntaxError
           else if \<not> valid_name g (data_attribute s) then Inl InvalidCharacterError
           else Inr (n\<lparr>attrs := (attrs n)(data_attribute s \<mapsto> t)\<rparr>)))"

definition set_cssText :: "env \<Rightarrow> jsval \<Rightarrow> node \<Rightarrow> error + node" where
  \<comment> \<open>\<^verbatim>\<open>node.style.cssText = v\<close>: \<^verbatim>\<open>node.style\<close> is undefined unless \<^verbatim>\<open>style\<close> is a member.\<close>
  "set_cssText g v n =
     (if has n (SKey ''style'')
      then (case toString g v of
              Inl e \<Rightarrow> Inl e
            | Inr s \<Rightarrow> Inr (n\<lparr>attrs := (attrs n)(''style'' \<mapsto> css g s)\<rparr>))
      else Inl TypeError)"

definition indexed :: "jsval list \<Rightarrow> (pkey \<times> jsval) list" where
  "indexed vs = map (\<lambda>(i, x). (SKey (digits i), x)) (enumerate 0 vs)"

definition ownKeys :: "env \<Rightarrow> jsval \<Rightarrow> error + (pkey \<times> jsval) list" where
  \<comment> \<open>\<^verbatim>\<open>Reflect.ownKeys(v)\<close>, each key with the value \<^verbatim>\<open>v[key]\<close> reads; a non-object throws.\<close>
  "ownKeys g v =
     (case v of
        Obj es \<Rightarrow> Inr es
      | Arr vs \<Rightarrow>
          Inr (indexed vs @ [(SKey ''length'', Num (vs \<noteq> []) (digits (length vs)))])
      | Fun f \<Rightarrow> Inr (own_props g v)
      | DocV d \<Rightarrow> Inr (own_props g v)
      | _ \<Rightarrow> Inl TypeError)"

definition enumerable :: "env \<Rightarrow> jsval \<Rightarrow> (pkey \<times> jsval) list" where
  \<comment> \<open>The own enumerable entries \<^verbatim>\<open>Object.assign\<close> copies from a source.\<close>
  "enumerable g v =
     (case v of
        Obj es \<Rightarrow> es
      | Arr vs \<Rightarrow> indexed vs
      | Str s \<Rightarrow> indexed (map (\<lambda>c. Str [c]) s)
      | Fun f \<Rightarrow> map (\<lambda>(k, x, e). (k, x)) (filter (\<lambda>(k, x, e). e) (host_props g v))
      | DocV d \<Rightarrow> map (\<lambda>(k, x, e). (k, x)) (filter (\<lambda>(k, x, e). e) (host_props g v))
      | _ \<Rightarrow> [])"

definition finish :: "outcome \<Rightarrow> node \<Rightarrow> error + node \<Rightarrow> node \<times> error option" where
  \<comment> \<open>A platform call that throws leaves the node as it was and the exception ends the
      turn; one that returns is entered in the history.\<close>
  "finish oc n r =
     (case r of
        Inl e \<Rightarrow> (n, Some e)
      | Inr n' \<Rightarrow> (n'\<lparr>history := history n' @ [oc]\<rparr>, None))"

section \<open>The options loop (lines 47 to 148)\<close>

text \<open>
  Every rule returns the node it reached together with the exception that ended it, if
  any: what was written before a throw stays written.
\<close>

fun aria_loop :: "env \<Rightarrow> (pkey \<times> jsval) list \<Rightarrow> pkey list \<Rightarrow> node \<Rightarrow> node \<times> error option" where
  "aria_loop g es [] n = (n, None)"
| "aria_loop g es (k # ks) n =
     (case k of
        YKey y \<Rightarrow> (n, Some TypeError)
      | SKey s \<Rightarrow>
          (case finish
                  (AriaAttribute (if s = ''role'' then s else ''aria-'' @ toLowerCase s)
                     (get_prop es k))
                  n
                  (setAttribute g (SKey (if s = ''role'' then s else ''aria-'' @ toLowerCase s))
                     (get_prop es k) n) of
             (n', Some e) \<Rightarrow> (n', Some e)
           | (n', None) \<Rightarrow> aria_loop g es ks n'))"

definition aria_intent :: "env \<Rightarrow> jsval \<Rightarrow> node \<Rightarrow> node \<times> error option" where
  \<comment> \<open>lines 54 to 62; a symbol sub-key has no \<^verbatim>\<open>toLowerCase\<close> to call\<close>
  "aria_intent g v n =
     (case ownKeys g v of
        Inl e \<Rightarrow> (n, Some e)
      | Inr es \<Rightarrow> aria_loop g es (map fst es) n)"

fun assign :: "env \<Rightarrow> (pkey \<times> jsval) list \<Rightarrow> node \<Rightarrow> node \<times> error option" where
  "assign g [] n = (n, None)"
| "assign g ((k, x) # es) n =
     (case k of
        YKey y \<Rightarrow> assign g es n
      | SKey s \<Rightarrow>
          (case finish (DatasetEntry s x) n (dataset_set g s x n) of
             (n', Some e) \<Rightarrow> (n', Some e)
           | (n', None) \<Rightarrow> assign g es n'))"

definition data_intent :: "env \<Rightarrow> jsval \<Rightarrow> node \<Rightarrow> node \<times> error option" where
  \<comment> \<open>lines 63 to 66: \<^verbatim>\<open>assign(node.dataset, v)\<close>; an undefined target throws, a symbol
      key lands on the dataset object and is no dataset entry\<close>
  "data_intent g v n =
     (if has n (SKey ''dataset'') then assign g (enumerable g v) n else (n, Some TypeError))"

definition style_intent :: "env \<Rightarrow> jsval \<Rightarrow> node \<Rightarrow> node \<times> error option" where
  \<comment> \<open>lines 67 to 71: \<^verbatim>\<open>isSVG\<close> is read from the global scope\<close>
  "style_intent g v n =
     (case global_isSVG g of
        None \<Rightarrow> (n, Some ReferenceError)
      | Some b \<Rightarrow>
          (if truthy b
           then finish (AttributeWrite (SKey ''style'') v) n (setAttribute g (SKey ''style'') v n)
           else finish (PropertyWrite (SKey ''cssText'') v) n (set_cssText g v n)))"

definition retarget :: "pkey \<Rightarrow> pkey" where
  \<comment> \<open>lines 72 to 83\<close>
  "retarget k =
     (if k = SKey ''class'' then SKey ''className''
      else if k = SKey ''html'' then SKey ''innerHTML''
      else if k = SKey ''text'' then SKey ''textContent''
      else k)"

definition property_rule :: "env \<Rightarrow> pkey \<Rightarrow> jsval \<Rightarrow> node \<Rightarrow> node \<times> error option" where
  \<comment> \<open>lines 87 to 105, entered when the key is a member of the node; the platform's setter
      can change neither what the node is nor what the loop has done\<close>
  "property_rule g k v n =
     (if k = SKey ''classList'' then finish (ClassListAddition v) n (classList_add g v n)
      else
        (case put g k v n of
           Inl e \<Rightarrow> finish (AttributeWrite k v) n (setAttribute g k v n)
         | Inr m \<Rightarrow>
             (m\<lparr>html := html n, members := members n,
                history := history n @ [PropertyWrite k v]\<rparr>, None)))"

definition type_rule :: "env \<Rightarrow> string \<Rightarrow> jsval \<Rightarrow> node \<Rightarrow> node \<times> error option" where
  \<comment> \<open>lines 123 to 147\<close>
  "type_rule g k v n =
     (case typeof v of
        TBoolean \<Rightarrow> finish (BooleanToggle k (truthy v)) n (toggleAttribute g k (truthy v) n)
      | TUndefined \<Rightarrow> (n, None)
      | TObject \<Rightarrow>
          (if \<not> truthy v then (n, None)
           else if typeof (member_of g v ''handleEvent'') \<noteq> TFunction
           then (case stringify g v of
                   Inl e \<Rightarrow> (n, Some e)
                 | Inr s \<Rightarrow>
                     finish (AttributeWrite (SKey k) (Str s)) n
                       (setAttribute g (SKey k) (Str s) n))
           else finish (ListenerRegistration k [v]) n (addEventListener g k [v] n))
      | TFunction \<Rightarrow> finish (ListenerRegistration k [v]) n (addEventListener g k [v] n)
      | _ \<Rightarrow> finish (AttributeWrite (SKey k) v) n (setAttribute g (SKey k) v n))"

definition hint_rule :: "env \<Rightarrow> pkey \<Rightarrow> jsval \<Rightarrow> node \<Rightarrow> node \<times> error option" where
  \<comment> \<open>lines 108 to 120, then the type switch; a symbol key has no \<^verbatim>\<open>startsWith\<close> to call\<close>
  "hint_rule g k v n =
     (case k of
        YKey y \<Rightarrow> (n, Some TypeError)
      | SKey s \<Rightarrow>
          (let v1 = (if startsWith s ''?'' then Bool (truthy v) else v) in
           if startsWith s ''?'' \<or> startsWith s ''@''
           then (case v1 of
                   Arr vs \<Rightarrow>
                     finish (ListenerRegistration (slice 1 s) vs) n
                       (addEventListener g (slice 1 s) vs n)
                 | _ \<Rightarrow> type_rule g (slice 1 s) v1 n)
           else type_rule g s v1 n))"

definition resolve_pair :: "env \<Rightarrow> pkey \<Rightarrow> jsval \<Rightarrow> node \<Rightarrow> node \<times> error option" where
  \<comment> \<open>one turn of the loop body after the consumed-hint skip, lines 49 to 147\<close>
  "resolve_pair g k v n =
     (if \<not> has n k \<and> k = SKey ''aria'' then aria_intent g v n
      else if \<not> has n k \<and> k = SKey ''data'' then data_intent g v n
      else if \<not> has n k \<and> k = SKey ''style'' then style_intent g v n
      else
        (let k1 = (if has n k then k else retarget k) in
         if has n k1 then property_rule g k1 v n else hint_rule g k1 v n))"

fun resolve :: "env \<Rightarrow> bool \<Rightarrow> (pkey \<times> jsval) list \<Rightarrow> pkey list \<Rightarrow> node \<Rightarrow> node \<times> error option" where
  "resolve g custom opts [] n = (n, None)"
| "resolve g custom opts (k # ks) n =
     (if custom \<and> k = SKey ''is'' then resolve g custom opts ks n
      else
        (case resolve_pair g k (get_prop opts k) n of
           (n', Some e) \<Rightarrow> (n', Some e)
         | (n', None) \<Rightarrow> resolve g custom opts ks n'))"

section \<open>The exported function (lines 16 to 153)\<close>

definition choose_document :: "env \<Rightarrow> (pkey \<times> jsval) list \<Rightarrow> error + jsval" where
  \<comment> \<open>line 18: \<^verbatim>\<open>options.document || document\<close>\<close>
  "choose_document g opts =
     (let d = get_prop opts (SKey ''document'') in
      if truthy d then Inr d
      else (case global_document g of None \<Rightarrow> Inl ReferenceError | Some v \<Rightarrow> Inr v))"

definition as_document :: "env \<Rightarrow> jsval \<Rightarrow> error + document" where
  \<comment> \<open>calling a method of \<^verbatim>\<open>doc\<close>: only a document has it\<close>
  "as_document g v = (case v of DocV d \<Rightarrow> Inr (documents g d) | _ \<Rightarrow> Inl TypeError)"

definition svg_ns :: string where
  "svg_ns = ''http://www.w3.org/2000/svg''"

definition alloc :: "node \<Rightarrow> store \<Rightarrow> nat \<times> store" where
  "alloc n st = (fresh st, st\<lparr>nodes := (nodes st)(fresh st := n), fresh := Suc (fresh st)\<rparr>)"

definition created ::
  "bool \<Rightarrow> error + node \<Rightarrow> store \<Rightarrow> error + (nat option \<times> bool \<times> store)" where
  \<comment> \<open>the node a creation call returns, placed at the next free address\<close>
  "created custom r st =
     (case r of
        Inl e \<Rightarrow> Inl e
      | Inr n \<Rightarrow> Inr (Some (fst (alloc n st)), custom, snd (alloc n st)))"

definition provide ::
  "env \<Rightarrow> jsval \<Rightarrow> tag \<Rightarrow> (pkey \<times> jsval) list \<Rightarrow> store \<Rightarrow> error + (nat option \<times> bool \<times> store)" where
  \<comment> \<open>lines 20 to 44: the node to configure (none when a selector matches nothing), and
      whether the customized-builtin hint was consumed\<close>
  "provide g doc tg opts st =
     (case tg of
        TagNode a \<Rightarrow> Inr (Some a, False, st)
      | TagString s \<Rightarrow>
          (if startsWith s ''<''
           then (case as_document g doc of
                   Inl e \<Rightarrow> Inl e
                 | Inr d \<Rightarrow>
                     (case querySelector d (slice 1 s) of
                        Inl e \<Rightarrow> Inl e
                      | Inr r \<Rightarrow> Inr (r, False, st)))
           else
             (let isSVG = (s = ''svg''); isNS = (isSVG \<or> startsWith s ''svg:'') in
              if isNS
              then (case as_document g doc of
                      Inl e \<Rightarrow> Inl e
                    | Inr d \<Rightarrow>
                        created False
                          (createElementNS d svg_ns (if isSVG then s else slice 4 s)) st)
              else if truthy (get_prop opts (SKey ''is''))
              then (case as_document g doc of
                      Inl e \<Rightarrow> Inl e
                    | Inr d \<Rightarrow>
                        (case toString g (get_prop opts (SKey ''is'')) of
                           Inl e \<Rightarrow> Inl e
                         | Inr nm \<Rightarrow> created True (createElement d s (Some nm)) st))
              else (case as_document g doc of
                      Inl e \<Rightarrow> Inl e
                    | Inr d \<Rightarrow> created False (createElement d s None) st))))"

fun moved :: "child list \<Rightarrow> child list" where
  \<comment> \<open>the children as they end up in the node: a node handed over twice is there once, at
      its last place\<close>
  "moved [] = []"
| "moved (ChildText t # cs) = ChildText t # moved cs"
| "moved (ChildNode b # cs) = (if ChildNode b \<in> set cs then moved cs else ChildNode b # moved cs)"

definition kept :: "child list \<Rightarrow> child list \<Rightarrow> child list" where
  \<comment> \<open>the children a node keeps when the given ones are moved elsewhere\<close>
  "kept cs old =
     filter (\<lambda>c. case c of ChildNode b \<Rightarrow> ChildNode b \<notin> set cs | ChildText t \<Rightarrow> True) old"

definition append_nodes :: "env \<Rightarrow> nat \<Rightarrow> child list \<Rightarrow> store \<Rightarrow> error + store" where
  \<comment> \<open>line 150: \<^verbatim>\<open>if (childNodes.length) node.append(...childNodes)\<close>; a node that is
      appended leaves the parent it had\<close>
  "append_nodes g a cs st =
     (if cs = [] then Inr st
      else if \<not> insertable g st a cs then Inl HierarchyRequestError
      else Inr (st\<lparr>nodes := (\<lambda>b.
                  (nodes st b)\<lparr>children :=
                     (if b = a then kept cs (children (nodes st b)) @ moved cs
                      else kept cs (children (nodes st b)))\<rparr>)\<rparr>))"

definition put_back :: "nat \<Rightarrow> node \<Rightarrow> store \<Rightarrow> store" where
  "put_back a n st = st\<lparr>nodes := (nodes st)(a := n)\<rparr>"

definition configure ::
  "env \<Rightarrow> tag \<Rightarrow> (pkey \<times> jsval) list option \<Rightarrow> child list \<Rightarrow> store \<Rightarrow> (error + nat option) \<times> store" where
  "configure g tg options childNodes st =
     (let opts = (case options of None \<Rightarrow> [] | Some b \<Rightarrow> b) in
      case choose_document g opts of
        Inl e \<Rightarrow> (Inl e, st)
      | Inr doc \<Rightarrow>
          (case provide g doc tg opts st of
             Inl e \<Rightarrow> (Inl e, st)
           | Inr (None, custom, st1) \<Rightarrow> (Inr None, st1)
           | Inr (Some a, custom, st1) \<Rightarrow>
               (case resolve g custom opts (map fst opts) (nodes st1 a) of
                  (n', Some e) \<Rightarrow> (Inl e, put_back a n' st1)
                | (n', None) \<Rightarrow>
                    (case append_nodes g a childNodes (put_back a n' st1) of
                       Inl e \<Rightarrow> (Inl e, put_back a n' st1)
                     | Inr st2 \<Rightarrow> (Inr (Some a), st2)))))"

section \<open>Concrete nodes and a concrete environment\<close>

text \<open>
  A browser reduced to what the examples need. Attribute names are checked against the
  Name production of XML. The setter rejects a write to \<^verbatim>\<open>viewBox\<close> and to the
  \<^verbatim>\<open>className\<close> of a node that is no HTML element (both have a getter only, so the write
  throws in module code) and a symbol where it wants a string; it reflects \<^verbatim>\<open>id\<close>,
  \<^verbatim>\<open>title\<close>, \<^verbatim>\<open>className\<close> and \<^verbatim>\<open>style\<close> into the attributes \<^verbatim>\<open>id\<close>, \<^verbatim>\<open>title\<close>,
  \<^verbatim>\<open>class\<close> and \<^verbatim>\<open>style\<close>, and
  \<^verbatim>\<open>hidden\<close> into the presence of the attribute \<^verbatim>\<open>hidden\<close>; of any other write it only
  records the value. Three nodes: an HTML element; an SVG element; and an element of a
  foreign namespace (or of an XML document), which has neither \<^verbatim>\<open>style\<close> nor
  \<^verbatim>\<open>dataset\<close> nor \<^verbatim>\<open>hidden\<close>.
\<close>

definition name_start :: "char \<Rightarrow> bool" where
  "name_start c =
     (c = CHR '':'' \<or> c = CHR ''_'' \<or> upper_ascii c \<or> lower_ascii c
      \<or> (192 \<le> (of_char c :: nat) \<and> (of_char c :: nat) \<noteq> 215 \<and> (of_char c :: nat) \<noteq> 247))"

definition name_char :: "char \<Rightarrow> bool" where
  "name_char c =
     (name_start c \<or> c = CHR ''-'' \<or> c = CHR ''.''
      \<or> (48 \<le> (of_char c :: nat) \<and> (of_char c :: nat) \<le> 57) \<or> (of_char c :: nat) = 183)"

definition xml_name :: "string \<Rightarrow> bool" where
  "xml_name s = (case s of [] \<Rightarrow> False | c # cs \<Rightarrow> name_start c \<and> list_all name_char cs)"

definition plain :: env where
  "plain =
     \<lparr>global_document = Some (DocV 0), global_isSVG = None,
      documents = (\<lambda>d. \<lparr>querySelector = (\<lambda>sel. Inr None),
                         createElementNS = (\<lambda>ns nm. Inl InvalidCharacterError),
                         createElement = (\<lambda>t i. Inl InvalidCharacterError)\<rparr>),
      stringify = (\<lambda>v. Inr ''{}''),
      object_text = (\<lambda>v. Inr ''[object Object]''),
      host_props = (\<lambda>v. []),
      valid_name = xml_name,
      put = (\<lambda>k v n. Inr n),
      css = (\<lambda>s. s),
      abort_signal = (\<lambda>v. None),
      insertable = (\<lambda>st a cs. ChildNode a \<notin> set cs)\<rparr>"

definition reflect :: "string \<Rightarrow> pkey \<Rightarrow> jsval \<Rightarrow> node \<Rightarrow> error + node" where
  \<comment> \<open>a setter that takes a string and stores it as an attribute\<close>
  "reflect nm k v n =
     (case toString plain v of
        Inl e \<Rightarrow> Inl e
      | Inr s \<Rightarrow> Inr (n\<lparr>props := (props n)(k \<mapsto> Str s), attrs := (attrs n)(nm \<mapsto> s)\<rparr>))"

definition browser_put :: "pkey \<Rightarrow> jsval \<Rightarrow> node \<Rightarrow> error + node" where
  "browser_put k v n =
     (if k = SKey ''viewBox'' \<or> (k = SKey ''className'' \<and> \<not> html n) then Inl TypeError
      else if k = SKey ''id'' then reflect ''id'' k v n
      else if k = SKey ''title'' then reflect ''title'' k v n
      else if k = SKey ''className'' then reflect ''class'' k v n
      else if k = SKey ''style'' then reflect ''style'' k v n
      else if k = SKey ''hidden''
      then Inr (n\<lparr>props := (props n)(k \<mapsto> Bool (truthy v)),
                  attrs := (if truthy v then (attrs n)(''hidden'' \<mapsto> [])
                            else (attrs n)(''hidden'' := None))\<rparr>)
      else Inr (n\<lparr>props := (props n)(k \<mapsto> v)\<rparr>))"

definition html_node :: node where
  "html_node =
     \<lparr>html = True,
      members = map SKey [''className'', ''innerHTML'', ''textContent'', ''classList'',
                          ''style'', ''dataset'', ''id'', ''title'', ''hidden''],
      props = Map.empty, attrs = Map.empty, listeners = [], children = [], history = []\<rparr>"

definition svg_node :: node where
  "svg_node =
     \<lparr>html = False,
      members = map SKey [''className'', ''innerHTML'', ''textContent'', ''classList'',
                          ''style'', ''dataset'', ''id'', ''viewBox''],
      props = Map.empty, attrs = Map.empty, listeners = [], children = [], history = []\<rparr>"

definition bare_node :: node where
  "bare_node =
     \<lparr>html = False,
      members = map SKey [''className'', ''innerHTML'', ''textContent'', ''classList'', ''id''],
      props = Map.empty, attrs = Map.empty, listeners = [], children = [], history = []\<rparr>"

definition page :: document where
  "page =
     \<lparr>querySelector =
        (\<lambda>sel. if sel = [] then Inl SyntaxError
               else if sel = ''#app'' then Inr (Some 0) else Inr None),
      createElementNS = (\<lambda>ns nm. if xml_name nm then Inr svg_node else Inl InvalidCharacterError),
      createElement = (\<lambda>t i. if xml_name t then Inr html_node else Inl InvalidCharacterError)\<rparr>"

definition browser :: env where
  "browser = plain\<lparr>documents := (\<lambda>d. page), put := browser_put\<rparr>"

definition store0 :: store where
  "store0 = \<lparr>nodes = (\<lambda>a. if a = 1 then bare_node else html_node), fresh = 2\<rparr>"

section \<open>Vocabulary of the statements\<close>

definition falsy :: "jsval \<Rightarrow> bool" where
  \<comment> \<open>the values double negation sends to false: undefined, null, false, zero and NaN,
      the big integer zero and the empty string\<close>
  "falsy v =
     (case v of
        Undefined \<Rightarrow> True
      | Null \<Rightarrow> True
      | Bool b \<Rightarrow> \<not> b
      | Num t s \<Rightarrow> \<not> t
      | BigInt i \<Rightarrow> i = 0
      | Str s \<Rightarrow> s = []
      | _ \<Rightarrow> False)"

definition toggled :: "string \<Rightarrow> bool \<Rightarrow> node \<Rightarrow> node" where
  \<comment> \<open>the node with the attribute present (kept as it is, or added empty) or absent\<close>
  "toggled a b n =
     (if b then (if attrs n a = None then n\<lparr>attrs := (attrs n)(a \<mapsto> [])\<rparr> else n)
      else n\<lparr>attrs := (attrs n)(a := None)\<rparr>)"

definition entered :: "outcome list \<Rightarrow> node \<Rightarrow> node" where
  \<comment> \<open>the node with further outcomes in its history\<close>
  "entered ocs n = n\<lparr>history := history n @ ocs\<rparr>"


definition coercible :: "env \<Rightarrow> jsval \<Rightarrow> bool" where
  \<comment> \<open>the value has a string form: its coercion to a string does not throw\<close>
  "coercible g v = (case toString g v of Inl e \<Rightarrow> False | Inr t \<Rightarrow> True)"

definition text_of :: "env \<Rightarrow> jsval \<Rightarrow> string" where
  "text_of g v = (case toString g v of Inl e \<Rightarrow> [] | Inr t \<Rightarrow> t)"

definition aria_name :: "string \<Rightarrow> string" where
  \<comment> \<open>the attribute an \<^verbatim>\<open>aria\<close> sub-key stands for\<close>
  "aria_name s = (if s = ''role'' then ''role'' else ''aria-'' @ toLowerCase s)"

definition mapping :: "(string \<times> jsval) list \<Rightarrow> jsval" where
  \<comment> \<open>an object whose own keys are all strings\<close>
  "mapping kvs = Obj (map (\<lambda>(s, x). (SKey s, x)) kvs)"

definition is_listener :: "jsval \<Rightarrow> bool" where
  \<comment> \<open>what the registration primitive takes as a listener: a function or a non-null object\<close>
  "is_listener l = (typeof l = TFunction \<or> (typeof l = TObject \<and> l \<noteq> Null))"

definition callable :: "env \<Rightarrow> jsval \<Rightarrow> bool" where
  \<comment> \<open>a bare callable, or an object that exposes a callable \<^verbatim>\<open>handleEvent\<close>\<close>
  "callable g v =
     (typeof v = TFunction
      \<or> (typeof v = TObject \<and> v \<noteq> Null \<and> typeof (member_of g v ''handleEvent'') = TFunction))"

definition no_abort :: "env \<Rightarrow> jsval \<Rightarrow> bool" where
  \<comment> \<open>the options carry no abort signal, or one that is not aborted\<close>
  "no_abort g x =
     (signal_of g x = Undefined \<or> abort_signal g (signal_of g x) = Some False)"

definition with_listener :: "env \<Rightarrow> string \<Rightarrow> jsval \<Rightarrow> jsval \<Rightarrow> node \<Rightarrow> node" where
  \<comment> \<open>the node with the listener registered under the type with the options, unless one of
      the same type, callback and capture flag is registered already\<close>
  "with_listener g ty cb x n =
     (if registered ty cb (capture_of g x) n then n
      else n\<lparr>listeners := listeners n @ [(ty, cb, capture_of g x, x)]\<rparr>)"



definition surface :: "category \<Rightarrow> node \<Rightarrow> node \<Rightarrow> bool" where
  \<comment> \<open>what calls of a category can change of a node: never what the node is; a
      registration the listeners only; a property write whatever the setter reaches; a
      call of any other category the attributes only\<close>
  "surface c n n' =
     (html n' = html n \<and> members n' = members n
      \<and> (case c of
            PropertyWriting \<Rightarrow> True
          | ListenerRegistering \<Rightarrow>
              props n' = props n \<and> children n' = children n \<and> attrs n' = attrs n
          | _ \<Rightarrow>
              props n' = props n \<and> children n' = children n \<and> listeners n' = listeners n))"




definition bag :: "(pkey \<times> jsval) list option \<Rightarrow> (pkey \<times> jsval) list" where
  \<comment> \<open>line 17: \<^verbatim>\<open>options ??= empty\<close>\<close>
  "bag options = (case options of None \<Rightarrow> [] | Some b \<Rightarrow> b)"

definition document_of :: "(pkey \<times> jsval) list option \<Rightarrow> jsval" where
  \<comment> \<open>the one field line 18 reads\<close>
  "document_of options = get_prop (bag options) (SKey ''document'')"

definition lookup :: "env \<Rightarrow> (pkey \<times> jsval) list option \<Rightarrow> string \<Rightarrow> error + nat option" where
  \<comment> \<open>the single-result lookup of a selector in the chosen document\<close>
  "lookup g options sel =
     (case choose_document g (bag options) of
        Inl e \<Rightarrow> Inl e
      | Inr doc \<Rightarrow>
          (case as_document g doc of
             Inl e \<Rightarrow> Inl e
           | Inr d \<Rightarrow> querySelector d sel))"

definition selector_misses :: "env \<Rightarrow> tag \<Rightarrow> (pkey \<times> jsval) list option \<Rightarrow> bool" where
  \<comment> \<open>the tag is a selector string and its lookup in the chosen document matches nothing\<close>
  "selector_misses g tg options =
     (case tg of
        TagNode a \<Rightarrow> False
      | TagString s \<Rightarrow> startsWith s ''<'' \<and> lookup g options (slice 1 s) = Inr None)"

definition target :: "env \<Rightarrow> tag \<Rightarrow> (pkey \<times> jsval) list option \<Rightarrow> store \<Rightarrow> nat option" where
  \<comment> \<open>the node the call is about: the node passed in, the node the selector finds, or the
      node about to be created at the next free address\<close>
  "target g tg options st =
     (case tg of
        TagNode a \<Rightarrow> Some a
      | TagString s \<Rightarrow>
          (if startsWith s ''<''
           then (case lookup g options (slice 1 s) of Inl e \<Rightarrow> None | Inr r \<Rightarrow> r)
           else Some (fresh st)))"

definition arrival ::
  "env \<Rightarrow> tag \<Rightarrow> (pkey \<times> jsval) list option \<Rightarrow> store \<Rightarrow> error + (nat option \<times> bool \<times> store)" where
  \<comment> \<open>lines 17 to 44 together: the document is chosen, then the node is provided\<close>
  "arrival g tg options st =
     (case choose_document g (bag options) of
        Inl e \<Rightarrow> Inl e
      | Inr doc \<Rightarrow> provide g doc tg (bag options) st)"

definition with_children :: "child list \<Rightarrow> node \<Rightarrow> node" where
  \<comment> \<open>the node once the children are appended to it\<close>
  "with_children cs n = (if cs = [] then n else n\<lparr>children := kept cs (children n) @ moved cs\<rparr>)"


definition attribute_ok :: "env \<Rightarrow> string \<Rightarrow> jsval \<Rightarrow> bool" where
  \<comment> \<open>what an attribute write takes: a value with a string form under a name the platform
      accepts\<close>
  "attribute_ok g nm v = (coercible g v \<and> valid_name g nm)"












section \<open>Properties of the options loop\<close>


lemma startsWith_Cons [simp]: "startsWith (c # s) [d] = (c = d)"
  by (simp add: startsWith_def)

lemma slice_1_Cons [simp]: "slice (Suc 0) (c # s) = s"
  by (simp add: slice_def)

lemma falsy_truthy: "truthy v = (\<not> falsy v)"
  by (cases v) (simp_all add: falsy_def)

lemma toggled_presence: "(attrs (toggled a b n) a \<noteq> None) = b"
  by (simp add: toggled_def)

lemma toggleAttribute_valid:
  "valid_name g nm \<Longrightarrow> toggleAttribute g nm b n = Inr (toggled (attribute_name n nm) b n)"
  by (simp add: toggleAttribute_def toggled_def)

lemma toggle_finished:
  "valid_name g nm \<Longrightarrow>
   finish (BooleanToggle nm b) n (toggleAttribute g nm b n)
     = (entered [BooleanToggle nm b] (toggled (attribute_name n nm) b n), None)"
  by (simp add: toggleAttribute_valid finish_def entered_def)

text \<open>
  C4, with the condition the platform adds. For a key that starts with \<^verbatim>\<open>?\<close> and is no
  member of the node, whatever the value: the turn coerces it by double negation, strips
  the marker, passes the \<^verbatim>\<open>@\<close> case (a boolean is no array) and calls one boolean toggle
  under the stripped name. When the platform takes that name as an attribute name, the
  turn ends without an exception and the attribute, stored under the name as the node
  stores it (lower-cased on an HTML element), is present afterwards exactly when the value
  is not falsy; the node is otherwise as it was. When the platform does not take the
  name, the turn ends in an InvalidCharacterError and the node is as it was.
\<close>

theorem question_key_toggles:
  assumes "\<not> has n (SKey (CHR ''?'' # nm))"
  shows "(valid_name g nm \<longrightarrow>
            resolve_pair g (SKey (CHR ''?'' # nm)) v n
              = (entered [BooleanToggle nm (\<not> falsy v)]
                   (toggled (attribute_name n nm) (\<not> falsy v) n), None)
            \<and> (attrs (toggled (attribute_name n nm) (\<not> falsy v) n) (attribute_name n nm)
                  \<noteq> None) = (\<not> falsy v))
       \<and> (\<not> valid_name g nm \<longrightarrow>
            resolve_pair g (SKey (CHR ''?'' # nm)) v n = (n, Some InvalidCharacterError))"
proof -
  have "resolve_pair g (SKey (CHR ''?'' # nm)) v n
          = finish (BooleanToggle nm (truthy v)) n (toggleAttribute g nm (truthy v) n)"
    using assms by (simp add: resolve_pair_def retarget_def hint_rule_def type_rule_def)
  then have r: "resolve_pair g (SKey (CHR ''?'' # nm)) v n
          = finish (BooleanToggle nm (\<not> falsy v)) n (toggleAttribute g nm (\<not> falsy v) n)"
    by (simp add: falsy_truthy)
  have a: "valid_name g nm \<Longrightarrow>
            resolve_pair g (SKey (CHR ''?'' # nm)) v n
              = (entered [BooleanToggle nm (\<not> falsy v)]
                   (toggled (attribute_name n nm) (\<not> falsy v) n), None)"
    using r toggle_finished [of g nm "\<not> falsy v" n] by simp
  have b: "(attrs (toggled (attribute_name n nm) (\<not> falsy v) n) (attribute_name n nm) \<noteq> None)
           = (\<not> falsy v)"
    by (rule toggled_presence)
  have c: "\<not> valid_name g nm \<Longrightarrow>
            resolve_pair g (SKey (CHR ''?'' # nm)) v n = (n, Some InvalidCharacterError)"
    using r by (simp add: toggleAttribute_def finish_def)
  show ?thesis using a b c by blast
qed


lemma hidden_stored: "attribute_name html_node ''Hidden'' = ''hidden''"
  by (simp add: attribute_name_def html_node_def ascii_lowercase_def upper_ascii_def
      shift_case_def)

lemma html_node_fresh [simp]:
  "history html_node = []" "attrs html_node = Map.empty" "html html_node"
  by (simp_all add: html_node_def)

text \<open>
  The key \<^verbatim>\<open>?Hidden\<close> on an HTML element: a non-empty string adds the attribute
  \<^verbatim>\<open>hidden\<close>; the empty string, the number zero and the big integer zero remove it. The
  key \<^verbatim>\<open>?a b\<close> ends in an exception.
\<close>

theorem question_key_toggles_witness:
  "\<not> has html_node (SKey ''?Hidden'') \<and> valid_name browser ''Hidden''
   \<and> resolve_pair browser (SKey ''?Hidden'') (Str ''yes'') html_node
       = (html_node\<lparr>attrs := [''hidden'' \<mapsto> []],
                     history := [BooleanToggle ''Hidden'' True]\<rparr>, None)
   \<and> resolve_pair browser (SKey ''?Hidden'') (Str [])
         (html_node\<lparr>attrs := [''hidden'' \<mapsto> []]\<rparr>)
       = (html_node\<lparr>attrs := Map.empty, history := [BooleanToggle ''Hidden'' False]\<rparr>, None)
   \<and> resolve_pair browser (SKey ''?Hidden'') (Num False ''0'')
         (html_node\<lparr>attrs := [''hidden'' \<mapsto> []]\<rparr>)
       = (html_node\<lparr>attrs := Map.empty, history := [BooleanToggle ''Hidden'' False]\<rparr>, None)
   \<and> resolve_pair browser (SKey ''?Hidden'') (BigInt 0)
         (html_node\<lparr>attrs := [''hidden'' \<mapsto> []]\<rparr>)
       = (html_node\<lparr>attrs := Map.empty, history := [BooleanToggle ''Hidden'' False]\<rparr>, None)
   \<and> \<not> has html_node (SKey ''?a b'') \<and> \<not> valid_name browser ''a b''
   \<and> resolve_pair browser (SKey ''?a b'') (Bool True) html_node
       = (html_node, Some InvalidCharacterError)"
proof -
  let ?n = "html_node\<lparr>attrs := [''hidden'' \<mapsto> []]\<rparr>"
  have m0: "\<not> has html_node (SKey ''?Hidden'')" and m: "\<not> has ?n (SKey ''?Hidden'')"
    and m1: "\<not> has html_node (SKey ''?a b'')"
    by (simp_all add: has_def html_node_def)
  have i: "\<not> valid_name browser ''a b''"
    by (simp add: browser_def plain_def xml_name_def name_start_def name_char_def
        upper_ascii_def lower_ascii_def)
  have v: "valid_name browser ''Hidden''"
    by (simp add: browser_def plain_def xml_name_def name_start_def name_char_def
        upper_ascii_def lower_ascii_def)
  have s: "attribute_name html_node ''Hidden'' = ''hidden''"
    "attribute_name ?n ''Hidden'' = ''hidden''"
    by (simp_all add: attribute_name_def ascii_lowercase_def upper_ascii_def shift_case_def)
  have t: "toggled ''hidden'' True html_node = ?n"
    "entered [BooleanToggle ''Hidden'' True] ?n
       = html_node\<lparr>attrs := [''hidden'' \<mapsto> []], history := [BooleanToggle ''Hidden'' True]\<rparr>"
    "entered [BooleanToggle ''Hidden'' False] (toggled ''hidden'' False ?n)
       = html_node\<lparr>attrs := Map.empty, history := [BooleanToggle ''Hidden'' False]\<rparr>"
    by (simp_all add: toggled_def entered_def)
  have f: "\<not> falsy (Str ''yes'')" "falsy (Str [])" "falsy (Num False ''0'')" "falsy (BigInt 0)"
    by (simp_all add: falsy_def)
  show ?thesis
    using m0 m1 v i
      question_key_toggles [OF m0, where g = browser and v = "Str ''yes''"]
      question_key_toggles [OF m, where g = browser and v = "Str []"]
      question_key_toggles [OF m, where g = browser and v = "Num False ''0''"]
      question_key_toggles [OF m, where g = browser and v = "BigInt 0"]
      question_key_toggles [OF m1, where g = browser and v = "Bool True"]
    by (simp add: s t f)
qed

text \<open>
  C4 as stated fails at the key \<^verbatim>\<open>?\<close>: the stripped name is empty, the platform refuses it
  as an attribute name, and the turn ends in an InvalidCharacterError with nothing
  toggled.
\<close>

theorem empty_name_counterexample:
  "\<not> has html_node (SKey ''?'')
   \<and> resolve_pair browser (SKey ''?'') (Bool True) html_node
       = (html_node, Some InvalidCharacterError)"
  by (simp add: resolve_pair_def retarget_def hint_rule_def type_rule_def toggleAttribute_def
      finish_def has_def html_node_def browser_def plain_def xml_name_def slice_def)






lemma coercible_text: "coercible g v \<Longrightarrow> toString g v = Inr (text_of g v)"
  by (simp add: coercible_def text_of_def split: sum.splits)

lemma setAttribute_accepted:
  "coercible g v \<Longrightarrow> valid_name g nm \<Longrightarrow>
   setAttribute g (SKey nm) v n = Inr (n\<lparr>attrs := (attrs n)(attribute_name n nm \<mapsto> text_of g v)\<rparr>)"
  by (simp add: setAttribute_def coercible_text)

text \<open>
  C9, corrected. For a string key that is a member of the node, other than \<^verbatim>\<open>classList\<close>,
  whose direct write the platform rejects: when the value has a string form and the key
  is a name the platform takes as an attribute name, the turn ends without an exception
  and the node is the node it was with that one attribute set to the string form (and
  the attribute write entered in the history); otherwise the attribute write of the
  catch block throws in its turn, the turn ends in that exception and the node is as it
  was.
\<close>

theorem rejected_write_falls_back:
  assumes "has n (SKey s)" and "s \<noteq> ''classList''"
    and "put g (SKey s) v n = Inl e"
  shows "(coercible g v \<and> valid_name g s \<longrightarrow>
            resolve_pair g (SKey s) v n
              = (n\<lparr>attrs := (attrs n)(attribute_name n s \<mapsto> text_of g v),
                    history := history n @ [AttributeWrite (SKey s) v]\<rparr>, None))
       \<and> (\<not> (coercible g v \<and> valid_name g s) \<longrightarrow>
            fst (resolve_pair g (SKey s) v n) = n
            \<and> snd (resolve_pair g (SKey s) v n) \<noteq> None)"
proof -
  have r: "resolve_pair g (SKey s) v n
             = finish (AttributeWrite (SKey s) v) n (setAttribute g (SKey s) v n)"
    using assms by (simp add: resolve_pair_def property_rule_def Let_def)
  have a: "coercible g v \<and> valid_name g s \<Longrightarrow>
            resolve_pair g (SKey s) v n
              = (n\<lparr>attrs := (attrs n)(attribute_name n s \<mapsto> text_of g v),
                    history := history n @ [AttributeWrite (SKey s) v]\<rparr>, None)"
    using r by (simp add: setAttribute_accepted finish_def)
  have b: "\<not> (coercible g v \<and> valid_name g s) \<Longrightarrow>
            fst (resolve_pair g (SKey s) v n) = n \<and> snd (resolve_pair g (SKey s) v n) \<noteq> None"
    using r by (cases "toString g v") (auto simp: setAttribute_def coercible_def finish_def)
  show ?thesis using a b by blast
qed

lemma viewBox_name: "valid_name browser ''viewBox''"
  by (simp add: browser_def plain_def xml_name_def name_start_def name_char_def
      upper_ascii_def lower_ascii_def)

lemma svg_node_fresh [simp]:
  "history svg_node = []" "attrs svg_node = Map.empty" "\<not> html svg_node"
  by (simp_all add: svg_node_def)

text \<open>
  The key \<^verbatim>\<open>viewBox\<close> on an SVG element, which has a getter only: the value true ends as the
  attribute \<^verbatim>\<open>viewBox="true"\<close>, a symbol ends in an exception.
\<close>

theorem rejected_write_falls_back_witness:
  "has svg_node (SKey ''viewBox'') \<and> ''viewBox'' \<noteq> ''classList''
   \<and> put browser (SKey ''viewBox'') (Bool True) svg_node = Inl TypeError
   \<and> coercible browser (Bool True) \<and> valid_name browser ''viewBox''
   \<and> resolve_pair browser (SKey ''viewBox'') (Bool True) svg_node
       = (svg_node\<lparr>attrs := [''viewBox'' \<mapsto> ''true''],
                    history := [AttributeWrite (SKey ''viewBox'') (Bool True)]\<rparr>, None)
   \<and> put browser (SKey ''viewBox'') (Sym 0) svg_node = Inl TypeError
   \<and> \<not> coercible browser (Sym 0)
   \<and> fst (resolve_pair browser (SKey ''viewBox'') (Sym 0) svg_node) = svg_node
   \<and> snd (resolve_pair browser (SKey ''viewBox'') (Sym 0) svg_node) \<noteq> None"
proof -
  have m: "has svg_node (SKey ''viewBox'')"
    by (simp add: has_def svg_node_def)
  have p: "put browser (SKey ''viewBox'') (Bool True) svg_node = Inl TypeError"
    "put browser (SKey ''viewBox'') (Sym 0) svg_node = Inl TypeError"
    by (simp_all add: browser_def browser_put_def)
  have t: "coercible browser (Bool True)" "text_of browser (Bool True) = ''true''"
    "\<not> coercible browser (Sym 0)"
    by (simp_all add: coercible_def text_of_def)
  have a: "attribute_name svg_node ''viewBox'' = ''viewBox''"
    by (simp add: attribute_name_def)
  show ?thesis
    using m p t viewBox_name
      rejected_write_falls_back [OF m _ p(1)] rejected_write_falls_back [OF m _ p(2)]
    by (simp add: a)
qed

text \<open>
  C9 as stated fails at \<^verbatim>\<open>{ id: Symbol() }\<close> on an HTML element: the setter of \<^verbatim>\<open>id\<close> throws
  on a symbol, the catch block calls \<^verbatim>\<open>setAttribute\<close> with the same symbol, whose string
  coercion throws again, and that TypeError leaves the call with no attribute set.
\<close>

theorem symbol_fallback_counterexample:
  "has html_node (SKey ''id'')
   \<and> put browser (SKey ''id'') (Sym 0) html_node = Inl TypeError
   \<and> resolve_pair browser (SKey ''id'') (Sym 0) html_node = (html_node, Some TypeError)"
proof -
  have m: "has html_node (SKey ''id'')"
    by (simp add: has_def html_node_def)
  have p: "put browser (SKey ''id'') (Sym 0) html_node = Inl TypeError"
    by (simp add: browser_def browser_put_def reflect_def)
  show ?thesis
    using m p by (simp add: resolve_pair_def property_rule_def setAttribute_def finish_def)
qed


lemma attribute_name_attrs [simp]: "attribute_name (n\<lparr>attrs := a\<rparr>) nm = attribute_name n nm"
  "attribute_name (n\<lparr>history := h\<rparr>) nm = attribute_name n nm"
  by (simp_all add: attribute_name_def)

lemma aria_loop_strings:
  "list_all (\<lambda>s. coercible g (get_prop es (SKey s)) \<and> valid_name g (aria_name s)) ss \<Longrightarrow>
   aria_loop g es (map SKey ss) n
     = (n\<lparr>attrs := attrs n ++ map_of (rev (map (\<lambda>s. (attribute_name n (aria_name s),
                                                    text_of g (get_prop es (SKey s)))) ss)),
           history := history n
             @ map (\<lambda>s. AriaAttribute (aria_name s) (get_prop es (SKey s))) ss\<rparr>, None)"
proof (induction ss arbitrary: n)
  case Nil
  then show ?case by simp
next
  case (Cons s ss)
  let ?x = "get_prop es (SKey s)"
  let ?n = "n\<lparr>attrs := (attrs n)(attribute_name n (aria_name s) \<mapsto> text_of g ?x),
              history := history n @ [AriaAttribute (aria_name s) ?x]\<rparr>"
  from Cons.prems have c: "coercible g ?x" and v: "valid_name g (aria_name s)"
    and r: "list_all (\<lambda>s. coercible g (get_prop es (SKey s)) \<and> valid_name g (aria_name s)) ss"
    by simp_all
  have nm: "(if s = ''role'' then s else ''aria-'' @ toLowerCase s) = aria_name s"
    by (simp add: aria_name_def)
  have "aria_loop g es (map SKey (s # ss)) n = aria_loop g es (map SKey ss) ?n"
    using setAttribute_accepted [OF c v, of n] by (simp add: nm finish_def)
  also have "\<dots> = (?n\<lparr>attrs := attrs ?n ++ map_of (rev (map (\<lambda>s. (attribute_name ?n (aria_name s),
                                                    text_of g (get_prop es (SKey s)))) ss)),
           history := history ?n
             @ map (\<lambda>s. AriaAttribute (aria_name s) (get_prop es (SKey s))) ss\<rparr>, None)"
    by (rule Cons.IH [OF r])
  finally show ?case by (simp add: map_add_upd_left)
qed

lemma get_prop_mapping:
  "distinct (map fst kvs) \<Longrightarrow> (s, x) \<in> set kvs \<Longrightarrow>
   get_prop (map (\<lambda>(s, x). (SKey s, x)) kvs) (SKey s) = x"
proof -
  assume d: "distinct (map fst kvs)" and m: "(s, x) \<in> set kvs"
  have "map fst (map (\<lambda>(s, x). (SKey s, x)) kvs) = map SKey (map fst kvs)"
    by (induction kvs) auto
  then have "distinct (map fst (map (\<lambda>(s, x). (SKey s, x)) kvs))"
    using d by (simp add: distinct_map inj_on_def)
  moreover have "(SKey s, x) \<in> set (map (\<lambda>(s, x). (SKey s, x)) kvs)"
    using m by force
  ultimately have "map_of (map (\<lambda>(s, x). (SKey s, x)) kvs) (SKey s) = Some x"
    by (rule map_of_is_SomeI)
  then show ?thesis by (simp add: get_prop_def)
qed


lemma setAttribute_ends:
  "(\<exists>n'. setAttribute g (SKey s) v n = Inr n') = attribute_ok g s v"
  by (cases "toString g v") (simp_all add: setAttribute_def attribute_ok_def coercible_def)

lemma aria_loop_ends:
  "(snd (aria_loop g es ks n) = None)
     = list_all (\<lambda>k. case k of
                       YKey y \<Rightarrow> False
                     | SKey t \<Rightarrow> attribute_ok g (aria_name t) (get_prop es k)) ks"
proof (induction ks arbitrary: n)
  case Nil
  then show ?case by simp
next
  case (Cons k ks)
  show ?case
  proof (cases k)
    case (YKey y)
    then show ?thesis by simp
  next
    case (SKey s)
    let ?nm = "if s = ''role'' then s else ''aria-'' @ toLowerCase s"
    have nm: "?nm = aria_name s" by (simp add: aria_name_def)
    show ?thesis
    proof (cases "setAttribute g (SKey ?nm) (get_prop es k) n")
      case (Inl e)
      then have "\<not> attribute_ok g (aria_name s) (get_prop es k)"
        using setAttribute_ends [of g ?nm "get_prop es k" n] nm by simp
      then show ?thesis using Inl SKey by (simp add: finish_def)
    next
      case (Inr n')
      then have "attribute_ok g (aria_name s) (get_prop es k)"
        using setAttribute_ends [of g ?nm "get_prop es k" n] nm by auto
      then show ?thesis using Inr SKey Cons.IH by (simp add: finish_def)
    qed
  qed
qed


text \<open>
  C7, with the conditions the platform adds. For \<^verbatim>\<open>aria\<close> no member of the node and a
  mapping of distinct string sub-keys: when every value has a string form and every
  attribute name (\<^verbatim>\<open>role\<close> for the sub-key \<^verbatim>\<open>role\<close>, \<^verbatim>\<open>aria-\<close> followed by the lower-cased
  sub-key otherwise) is one the platform takes, the turn ends without an exception, and
  the node is the node it was with one attribute per sub-key, in enumeration order, each
  set to the string form of the sub-key's value (and one entry per sub-key in the
  history); when some value has no string form or some name is refused, the turn ends in
  an exception.
\<close>

theorem aria_mapping_expands:
  assumes "\<not> has n (SKey ''aria'')"
    and "distinct (map fst kvs)"
  shows "(list_all (\<lambda>(s, x). coercible g x \<and> valid_name g (aria_name s)) kvs \<longrightarrow>
            resolve_pair g (SKey ''aria'') (mapping kvs) n
              = (n\<lparr>attrs := attrs n
                      ++ map_of (rev (map (\<lambda>(s, x). (attribute_name n (aria_name s), text_of g x))
                                        kvs)),
                    history := history n @ map (\<lambda>(s, x). AriaAttribute (aria_name s) x) kvs\<rparr>,
                 None))
       \<and> (\<not> list_all (\<lambda>(s, x). coercible g x \<and> valid_name g (aria_name s)) kvs \<longrightarrow>
            snd (resolve_pair g (SKey ''aria'') (mapping kvs) n) \<noteq> None)"
proof (intro conjI impI)
  let ?es = "map (\<lambda>(s, x). (SKey s, x)) kvs"
  have keys: "map fst ?es = map SKey (map fst kvs)"
    by (induction kvs) auto
  have vals: "\<And>s x. (s, x) \<in> set kvs \<Longrightarrow> get_prop ?es (SKey s) = x"
    using assms(2) by (rule get_prop_mapping)
  have rp: "resolve_pair g (SKey ''aria'') (mapping kvs) n = aria_loop g ?es (map fst ?es) n"
    using assms(1) by (simp add: resolve_pair_def aria_intent_def ownKeys_def mapping_def)
  {
    assume a: "list_all (\<lambda>(s, x). coercible g x \<and> valid_name g (aria_name s)) kvs"
    have co: "list_all (\<lambda>s. coercible g (get_prop ?es (SKey s)) \<and> valid_name g (aria_name s))
                (map fst kvs)"
      using a vals by (auto simp: list_all_iff)
    have same: "map (\<lambda>s. (attribute_name n (aria_name s), text_of g (get_prop ?es (SKey s))))
                  (map fst kvs)
              = map (\<lambda>(s, x). (attribute_name n (aria_name s), text_of g x)) kvs"
      using vals by auto
    have same': "map (\<lambda>s. AriaAttribute (aria_name s) (get_prop ?es (SKey s))) (map fst kvs)
              = map (\<lambda>(s, x). AriaAttribute (aria_name s) x) kvs"
      using vals by auto
    have "resolve_pair g (SKey ''aria'') (mapping kvs) n = aria_loop g ?es (map fst ?es) n"
      by (rule rp)
    also have "\<dots> = aria_loop g ?es (map SKey (map fst kvs)) n"
      by (simp only: keys)
    also have "\<dots> = (n\<lparr>attrs := attrs n ++ map_of (rev (map (\<lambda>s. (attribute_name n (aria_name s),
                                      text_of g (get_prop ?es (SKey s)))) (map fst kvs))),
             history := history n
               @ map (\<lambda>s. AriaAttribute (aria_name s) (get_prop ?es (SKey s))) (map fst kvs)\<rparr>,
             None)"
      by (rule aria_loop_strings [OF co])
    finally show "resolve_pair g (SKey ''aria'') (mapping kvs) n
              = (n\<lparr>attrs := attrs n
                      ++ map_of (rev (map (\<lambda>(s, x). (attribute_name n (aria_name s), text_of g x))
                                        kvs)),
                    history := history n @ map (\<lambda>(s, x). AriaAttribute (aria_name s) x) kvs\<rparr>,
                 None)"
      by (simp only: same same')
  }
  {
    assume b: "\<not> list_all (\<lambda>(s, x). coercible g x \<and> valid_name g (aria_name s)) kvs"
    then obtain s x where m: "(s, x) \<in> set kvs"
      and bad: "\<not> (coercible g x \<and> valid_name g (aria_name s))"
      by (auto simp: list_all_iff)
    have k: "SKey s \<in> set (map fst ?es)"
      using m keys by force
    have nb: "\<not> attribute_ok g (aria_name s) (get_prop ?es (SKey s))"
      using bad vals [OF m] by (simp add: attribute_ok_def)
    have "\<not> list_all (\<lambda>k. case k of
                          YKey y \<Rightarrow> False
                        | SKey t \<Rightarrow> attribute_ok g (aria_name t) (get_prop ?es k))
                       (map fst ?es)"
    proof
      assume "list_all (\<lambda>k. case k of
                          YKey y \<Rightarrow> False
                        | SKey t \<Rightarrow> attribute_ok g (aria_name t) (get_prop ?es k))
                       (map fst ?es)"
      then have "\<forall>k\<in>set (map fst ?es). case k of
                          YKey y \<Rightarrow> False
                        | SKey t \<Rightarrow> attribute_ok g (aria_name t) (get_prop ?es k)"
        by (simp only: list_all_iff)
      from bspec [OF this k] show False using nb by simp
    qed
    then show "snd (resolve_pair g (SKey ''aria'') (mapping kvs) n) \<noteq> None"
      unfolding rp using aria_loop_ends [of g ?es "map fst ?es" n] by simp
  }
qed

lemma lower_examples:
  "toLowerCase ''LabelledBy'' = ''labelledby''" "toLowerCase ''level'' = ''level''"
  "toLowerCase ''busy'' = ''busy''"
  by (simp_all add: toLowerCase_def lower_char_def upper_ascii_def upper_latin_def shift_case_def)

lemma aria_names_valid:
  "xml_name ''aria-labelledby''" "xml_name ''aria-level''" "xml_name ''aria-busy''"
  "xml_name ''role''"
  by (simp_all add: xml_name_def name_start_def name_char_def upper_ascii_def lower_ascii_def)

text \<open>
  On an SVG element, which keeps the case of attribute names, the sub-key \<^verbatim>\<open>LabelledBy\<close>
  ends as \<^verbatim>\<open>aria-labelledby\<close>: the lower-casing is the code's. A number and a boolean are
  written as their string forms, and \<^verbatim>\<open>role\<close> is not prefixed. A symbol under \<^verbatim>\<open>label\<close> ends
  in an exception.
\<close>

theorem aria_mapping_expands_witness:
  "\<not> has svg_node (SKey ''aria'')
   \<and> distinct (map fst [(''LabelledBy'', Str ''t''), (''level'', Num True ''2''),
                         (''busy'', Bool True), (''role'', Str ''button'')])
   \<and> list_all (\<lambda>(s, x). coercible browser x \<and> valid_name browser (aria_name s))
        [(''LabelledBy'', Str ''t''), (''level'', Num True ''2''),
         (''busy'', Bool True), (''role'', Str ''button'')]
   \<and> resolve_pair browser (SKey ''aria'')
        (mapping [(''LabelledBy'', Str ''t''), (''level'', Num True ''2''),
                  (''busy'', Bool True), (''role'', Str ''button'')]) svg_node
       = (svg_node\<lparr>attrs := [''aria-labelledby'' \<mapsto> ''t'', ''aria-level'' \<mapsto> ''2'',
                              ''aria-busy'' \<mapsto> ''true'', ''role'' \<mapsto> ''button''],
                    history := [AriaAttribute ''aria-labelledby'' (Str ''t''),
                                AriaAttribute ''aria-level'' (Num True ''2''),
                                AriaAttribute ''aria-busy'' (Bool True),
                                AriaAttribute ''role'' (Str ''button'')]\<rparr>, None)
   \<and> distinct (map fst [(''label'', Sym 0)])
   \<and> \<not> list_all (\<lambda>(s, x). coercible browser x \<and> valid_name browser (aria_name s))
          [(''label'', Sym 0)]
   \<and> snd (resolve_pair browser (SKey ''aria'') (mapping [(''label'', Sym 0)]) svg_node) \<noteq> None"
proof -
  let ?kvs = "[(''LabelledBy'', Str ''t''), (''level'', Num True ''2''),
               (''busy'', Bool True), (''role'', Str ''button'')]"
  have m: "\<not> has svg_node (SKey ''aria'')"
    by (simp add: has_def svg_node_def)
  have d: "distinct (map fst ?kvs)"
    by simp
  have nm: "aria_name ''LabelledBy'' = ''aria-labelledby''" "aria_name ''level'' = ''aria-level''"
    "aria_name ''busy'' = ''aria-busy''" "aria_name ''role'' = ''role''"
    by (simp_all add: aria_name_def lower_examples)
  have c: "list_all (\<lambda>(s, x). coercible browser x \<and> valid_name browser (aria_name s)) ?kvs"
    using aria_names_valid by (simp add: nm coercible_def browser_def plain_def)
  have y: "\<not> list_all (\<lambda>(s, x). coercible browser x \<and> valid_name browser (aria_name s))
          [(''label'', Sym 0)]"
    by (simp add: coercible_def)
  show ?thesis
    using m d c y aria_mapping_expands [OF m d, where g = browser]
      aria_mapping_expands [OF m, where g = browser and kvs = "[(''label'', Sym 0)]"]
    by (simp add: nm text_of_def attribute_name_def)
qed

text \<open>
  C7 as stated fails at the sub-key \<^verbatim>\<open>a b\<close>: \<^verbatim>\<open>aria-a b\<close> is no attribute name, and the turn
  ends in an InvalidCharacterError with no attribute written.
\<close>

theorem invalid_aria_name_counterexample:
  "\<not> has html_node (SKey ''aria'')
   \<and> resolve_pair browser (SKey ''aria'') (mapping [(''a b'', Str ''x'')]) html_node
       = (html_node, Some InvalidCharacterError)"
proof -
  have m: "\<not> has html_node (SKey ''aria'')"
    by (simp add: has_def html_node_def)
  have "\<not> valid_name browser (''aria-'' @ toLowerCase ''a b'')"
    by (simp add: browser_def plain_def xml_name_def name_start_def name_char_def
        upper_ascii_def lower_ascii_def toLowerCase_def lower_char_def upper_latin_def)
  then show ?thesis
    using m
    by (simp add: resolve_pair_def aria_intent_def ownKeys_def mapping_def get_prop_def
        setAttribute_def finish_def)
qed


lemma listener_registered:
  assumes "is_listener l" and "no_abort g (option_arg rest)"
  shows "addEventListener g ty (l # rest) n = Inr (with_listener g ty l (option_arg rest) n)"
proof -
  have a: "l \<noteq> Null" "l \<noteq> Undefined" "typeof l = TObject \<or> typeof l = TFunction"
    using assms(1) by (auto simp: is_listener_def)
  show ?thesis
    using a assms(2)
    by (auto simp: addEventListener_def with_listener_def no_abort_def)
qed

lemma no_options [simp]: "option_arg [] = Undefined" "no_abort g Undefined"
  by (simp_all add: option_arg_def no_abort_def signal_of_def member_of_def)

lemma callable_listener: "callable g v \<Longrightarrow> is_listener v"
  by (auto simp: callable_def is_listener_def)

lemma callable_type_rule:
  assumes "callable g v"
  shows "type_rule g nm v n
           = finish (ListenerRegistration nm [v]) n (addEventListener g nm [v] n)"
proof (cases "typeof v = TFunction")
  case True
  then show ?thesis by (simp add: type_rule_def)
next
  case False
  then have "typeof v = TObject" "v \<noteq> Null"
    "typeof (member_of g v ''handleEvent'') = TFunction"
    using assms by (auto simp: callable_def)
  moreover from this have "truthy v" by (cases v) simp_all
  ultimately show ?thesis by (simp add: type_rule_def)
qed

lemma at_key_array:
  "\<not> has n (SKey (CHR ''@'' # nm)) \<Longrightarrow>
   resolve_pair g (SKey (CHR ''@'' # nm)) (Arr vs) n
     = finish (ListenerRegistration nm vs) n (addEventListener g nm vs n)"
  by (simp add: resolve_pair_def retarget_def hint_rule_def)

text \<open>
  C6, corrected. For a key that starts with \<^verbatim>\<open>@\<close> and is no member of the node: an array
  whose first element is a listener (a function or a non-null object), and whose second
  element carries no abort signal or one that is not aborted, registers the first element
  under the stripped key with the second element as options; a function, or an object with
  a callable \<^verbatim>\<open>handleEvent\<close>, is registered under the stripped key with no options. In both
  cases the turn ends without an exception, and a listener already registered with the
  same type, callback and capture flag is not registered twice. The empty array, and an
  array whose first element is a primitive other than null and undefined, end in a
  TypeError; an array that starts with null or undefined registers nothing.
\<close>

theorem at_key_registers:
  assumes "\<not> has n (SKey (CHR ''@'' # nm))"
  shows "(is_listener l \<and> no_abort g (option_arg rest) \<longrightarrow>
            resolve_pair g (SKey (CHR ''@'' # nm)) (Arr (l # rest)) n
              = (entered [ListenerRegistration nm (l # rest)]
                   (with_listener g nm l (option_arg rest) n), None))
       \<and> (callable g v \<longrightarrow>
            resolve_pair g (SKey (CHR ''@'' # nm)) v n
              = (entered [ListenerRegistration nm [v]]
                   (with_listener g nm v Undefined n), None))
       \<and> resolve_pair g (SKey (CHR ''@'' # nm)) (Arr []) n = (n, Some TypeError)
       \<and> (\<not> is_listener l \<and> l \<noteq> Null \<and> l \<noteq> Undefined \<longrightarrow>
            resolve_pair g (SKey (CHR ''@'' # nm)) (Arr (l # rest)) n = (n, Some TypeError))
       \<and> ((l = Null \<or> l = Undefined) \<and> no_abort g (option_arg rest) \<longrightarrow>
            resolve_pair g (SKey (CHR ''@'' # nm)) (Arr (l # rest)) n
              = (entered [ListenerRegistration nm (l # rest)] n, None))"
proof (intro conjI impI)
  assume "is_listener l \<and> no_abort g (option_arg rest)"
  then have "addEventListener g nm (l # rest) n
               = Inr (with_listener g nm l (option_arg rest) n)"
    by (simp add: listener_registered)
  then show "resolve_pair g (SKey (CHR ''@'' # nm)) (Arr (l # rest)) n
              = (entered [ListenerRegistration nm (l # rest)]
                   (with_listener g nm l (option_arg rest) n), None)"
    using assms by (simp add: at_key_array finish_def entered_def)
next
  assume c: "callable g v"
  have "hint_rule g (SKey (CHR ''@'' # nm)) v n = type_rule g nm v n"
    using c by (cases v) (simp_all add: hint_rule_def callable_def member_of_def)
  moreover have "addEventListener g nm [v] n = Inr (with_listener g nm v Undefined n)"
    using listener_registered [OF callable_listener [OF c], of g "[]" nm n] by simp
  ultimately show "resolve_pair g (SKey (CHR ''@'' # nm)) v n
              = (entered [ListenerRegistration nm [v]]
                   (with_listener g nm v Undefined n), None)"
    using assms callable_type_rule [OF c, of nm n]
    by (simp add: resolve_pair_def retarget_def finish_def entered_def)
next
  show "resolve_pair g (SKey (CHR ''@'' # nm)) (Arr []) n = (n, Some TypeError)"
    using assms by (simp add: at_key_array addEventListener_def finish_def)
next
  assume "\<not> is_listener l \<and> l \<noteq> Null \<and> l \<noteq> Undefined"
  then have "\<not> (l = Null \<or> l = Undefined \<or> typeof l = TObject \<or> typeof l = TFunction)"
    by (auto simp: is_listener_def)
  then have "addEventListener g nm (l # rest) n = Inl TypeError"
    by (simp add: addEventListener_def)
  then show "resolve_pair g (SKey (CHR ''@'' # nm)) (Arr (l # rest)) n = (n, Some TypeError)"
    using assms by (simp add: at_key_array finish_def)
next
  assume a: "(l = Null \<or> l = Undefined) \<and> no_abort g (option_arg rest)"
  then have "addEventListener g nm (l # rest) n = Inr n"
    by (auto simp: addEventListener_def no_abort_def)
  then show "resolve_pair g (SKey (CHR ''@'' # nm)) (Arr (l # rest)) n
              = (entered [ListenerRegistration nm (l # rest)] n, None)"
    using assms by (simp add: at_key_array finish_def entered_def)
qed

text \<open>
  \<^verbatim>\<open>{ "@click": [fn, { once: true }] }\<close>, an object with \<^verbatim>\<open>handleEvent\<close>, \<^verbatim>\<open>fn\<close> given to a
  node that has it registered already, an array that starts with a number, and one that
  starts with null.
\<close>

theorem at_key_registers_witness:
  "\<not> has html_node (SKey ''@click'')
   \<and> is_listener (Fun ''fn'') \<and> no_abort browser (option_arg [Obj [(SKey ''once'', Bool True)]])
   \<and> resolve_pair browser (SKey ''@click'')
         (Arr [Fun ''fn'', Obj [(SKey ''once'', Bool True)]]) html_node
       = (html_node\<lparr>listeners :=
            [(''click'', Fun ''fn'', False, Obj [(SKey ''once'', Bool True)])],
            history := [ListenerRegistration ''click''
                          [Fun ''fn'', Obj [(SKey ''once'', Bool True)]]]\<rparr>, None)
   \<and> callable browser (Obj [(SKey ''handleEvent'', Fun ''h'')])
   \<and> resolve_pair browser (SKey ''@click'') (Obj [(SKey ''handleEvent'', Fun ''h'')]) html_node
       = (html_node\<lparr>listeners :=
            [(''click'', Obj [(SKey ''handleEvent'', Fun ''h'')], False, Undefined)],
            history := [ListenerRegistration ''click''
                          [Obj [(SKey ''handleEvent'', Fun ''h'')]]]\<rparr>, None)
   \<and> \<not> has (html_node\<lparr>listeners := [(''click'', Fun ''fn'', False, Undefined)]\<rparr>)
          (SKey ''@click'')
   \<and> callable browser (Fun ''fn'')
   \<and> resolve_pair browser (SKey ''@click'') (Fun ''fn'')
         (html_node\<lparr>listeners := [(''click'', Fun ''fn'', False, Undefined)]\<rparr>)
       = (html_node\<lparr>listeners := [(''click'', Fun ''fn'', False, Undefined)],
                     history := [ListenerRegistration ''click'' [Fun ''fn'']]\<rparr>, None)
   \<and> \<not> is_listener (Num True ''1'')
   \<and> resolve_pair browser (SKey ''@click'') (Arr [Num True ''1'']) html_node
       = (html_node, Some TypeError)
   \<and> no_abort browser (option_arg [])
   \<and> resolve_pair browser (SKey ''@click'') (Arr [Null]) html_node
       = (html_node\<lparr>history := [ListenerRegistration ''click'' [Null]]\<rparr>, None)"
proof -
  let ?o = "Obj [(SKey ''once'', Bool True)]"
  let ?h = "Obj [(SKey ''handleEvent'', Fun ''h'')]"
  let ?n = "html_node\<lparr>listeners := [(''click'', Fun ''fn'', False, Undefined)]\<rparr>"
  have m: "\<not> has html_node (SKey ''@click'')" "\<not> has ?n (SKey ''@click'')"
    by (simp_all add: has_def html_node_def)
  have l: "is_listener (Fun ''fn'')" "callable browser ?h" "callable browser (Fun ''fn'')"
    by (simp_all add: is_listener_def callable_def member_of_def get_prop_def)
  have o: "option_arg [?o] = ?o" "no_abort browser ?o" "capture_of browser ?o = False"
    "capture_of browser Undefined = False"
    by (simp_all add: option_arg_def no_abort_def signal_of_def capture_of_def is_dictionary_def
        member_of_def get_prop_def)
  have e: "listeners html_node = []"
    by (simp add: html_node_def)
  have w: "with_listener browser ''click'' (Fun ''fn'') ?o html_node
             = html_node\<lparr>listeners := [(''click'', Fun ''fn'', False, ?o)]\<rparr>"
    "with_listener browser ''click'' ?h Undefined html_node
             = html_node\<lparr>listeners := [(''click'', ?h, False, Undefined)]\<rparr>"
    "with_listener browser ''click'' (Fun ''fn'') Undefined ?n = ?n"
    by (simp_all add: with_listener_def registered_def o e)
  have x: "\<not> is_listener (Num True ''1'')"
    by (simp add: is_listener_def)
  have y: "entered [ListenerRegistration ''click'' [Null]] html_node
             = html_node\<lparr>history := [ListenerRegistration ''click'' [Null]]\<rparr>"
    by (simp add: entered_def)
  show ?thesis
    using m l o(1,2) x
      at_key_registers [OF m(1), where g = browser and l = "Fun ''fn''" and rest = "[?o]"
        and v = ?h]
      at_key_registers [OF m(2), where g = browser and l = "Fun ''fn''" and rest = "[?o]"
        and v = "Fun ''fn''"]
      at_key_registers [OF m(1), where g = browser and l = "Num True ''1''" and rest = "[]"
        and v = ?h]
      at_key_registers [OF m(1), where g = browser and l = Null and rest = "[]" and v = ?h]
    by (simp add: w y entered_def)
qed

text \<open>
  C6 as stated fails at the empty array: there is no first element, the code calls
  \<^verbatim>\<open>addEventListener\<close> with the type alone, and the call ends in a TypeError.
\<close>

theorem empty_array_counterexample:
  "\<not> has html_node (SKey ''@click'')
   \<and> resolve_pair browser (SKey ''@click'') (Arr []) html_node = (html_node, Some TypeError)"
  by (simp add: resolve_pair_def retarget_def hint_rule_def addEventListener_def finish_def
      has_def html_node_def)

section \<open>One category for each pair\<close>



lemma surface_refl [simp]: "surface c n n"
  by (cases c) (simp_all add: surface_def)


lemma surface_history [simp]: "surface c n (n'\<lparr>history := h\<rparr>) = surface c n n'"
  by (cases c) (simp_all add: surface_def)

lemma surface_attrs [simp]:
  "c \<noteq> ListenerRegistering \<Longrightarrow> surface c n (n\<lparr>attrs := a\<rparr>)"
  by (cases c) (simp_all add: surface_def)

lemma surface_listeners [simp]: "surface ListenerRegistering n (n\<lparr>listeners := l\<rparr>)"
  by (simp add: surface_def)























































section \<open>Properties of the exported function\<close>

lemma choose_document_cong:
  "document_of options' = document_of options \<Longrightarrow>
   choose_document g (bag options') = choose_document g (bag options)"
  by (simp add: choose_document_def document_of_def)

lemma lookup_cong:
  "document_of options' = document_of options \<Longrightarrow> lookup g options' sel = lookup g options sel"
  using choose_document_cong [of options' options g] by (simp add: lookup_def)

lemma configure_arrival:
  "configure g tg options kids st =
     (case arrival g tg options st of
        Inl e \<Rightarrow> (Inl e, st)
      | Inr (None, custom, st1) \<Rightarrow> (Inr None, st1)
      | Inr (Some a, custom, st1) \<Rightarrow>
          (case resolve g custom (bag options) (map fst (bag options)) (nodes st1 a) of
             (n', Some e) \<Rightarrow> (Inl e, put_back a n' st1)
           | (n', None) \<Rightarrow>
               (case append_nodes g a kids (put_back a n' st1) of
                  Inl e \<Rightarrow> (Inl e, put_back a n' st1)
                | Inr st2 \<Rightarrow> (Inr (Some a), st2))))"
proof -
  have b: "(case options of None \<Rightarrow> [] | Some b \<Rightarrow> b) = bag options"
    by (simp add: bag_def)
  show ?thesis
    unfolding configure_def Let_def b arrival_def
    by (cases "choose_document g (bag options)") simp_all
qed

lemma arrival_selector:
  assumes "startsWith s ''<''"
  shows "arrival g (TagString s) options st
           = (case lookup g options (slice 1 s) of
                Inl e \<Rightarrow> Inl e
              | Inr r \<Rightarrow> Inr (r, False, st))"
proof (cases "choose_document g (bag options)")
  case (Inl e)
  then show ?thesis by (simp add: arrival_def lookup_def)
next
  case (Inr doc)
  show ?thesis
  proof (cases "as_document g doc")
    case (Inl e)
    then show ?thesis using Inr assms by (simp add: arrival_def lookup_def provide_def)
  next
    case d: (Inr d)
    then show ?thesis
      using Inr assms by (cases "querySelector d (slice 1 s)")
        (simp_all add: arrival_def lookup_def provide_def)
  qed
qed

lemma created_fresh:
  "created c r st = Inr (x, c', st1) \<Longrightarrow> x = Some (fresh st)"
  by (cases r) (simp_all add: created_def alloc_def)

lemma provide_created:
  assumes "\<not> startsWith s ''<''" and "provide g doc (TagString s) opts st = Inr (r, c, st1)"
  shows "r = Some (fresh st)"
proof (cases "as_document g doc")
  case (Inl e)
  then show ?thesis using assms by (simp add: provide_def Let_def split: if_splits)
next
  case (Inr d)
  show ?thesis
  proof (cases "s = ''svg'' \<or> startsWith s ''svg:''")
    case True
    then have "created False (createElementNS d svg_ns (if s = ''svg'' then s else slice 4 s)) st
                 = Inr (r, c, st1)"
      using assms Inr by (simp add: provide_def Let_def)
    then show ?thesis by (rule created_fresh)
  next
    case ns: False
    show ?thesis
    proof (cases "truthy (get_prop opts (SKey ''is''))")
      case False
      then have "created False (createElement d s None) st = Inr (r, c, st1)"
        using assms Inr ns by (simp add: provide_def Let_def)
      then show ?thesis by (rule created_fresh)
    next
      case True
      show ?thesis
      proof (cases "toString g (get_prop opts (SKey ''is''))")
        case (Inl e)
        then show ?thesis using assms Inr ns True by (simp add: provide_def Let_def)
      next
        case nm: (Inr nm)
        then have "created True (createElement d s (Some nm)) st = Inr (r, c, st1)"
          using assms Inr ns True by (simp add: provide_def Let_def)
        then show ?thesis by (rule created_fresh)
      qed
    qed
  qed
qed

lemma arrival_target:
  assumes "arrival g tg options st = Inr (r, c, st1)"
  shows "r = target g tg options st"
proof (cases tg)
  case (TagNode a)
  then show ?thesis
    using assms by (cases "choose_document g (bag options)")
      (simp_all add: arrival_def provide_def target_def)
next
  case (TagString s)
  show ?thesis
  proof (cases "startsWith s ''<''")
    case True
    then show ?thesis
      using assms TagString arrival_selector [OF True, of g options st]
      by (cases "lookup g options (slice 1 s)") (simp_all add: target_def del: One_nat_def)
  next
    case False
    from assms obtain doc where "provide g doc (TagString s) (bag options) st = Inr (r, c, st1)"
      using TagString by (cases "choose_document g (bag options)") (simp_all add: arrival_def)
    then have "r = Some (fresh st)" using False by (rule provide_created [rotated])
    then show ?thesis using False TagString by (simp add: target_def)
  qed
qed

lemma arrival_miss:
  "selector_misses g tg options \<Longrightarrow> arrival g tg options st = Inr (None, False, st)"
proof -
  assume "selector_misses g tg options"
  then obtain s where "tg = TagString s" and p: "startsWith s ''<''"
    and "lookup g options (slice 1 s) = Inr None"
    by (cases tg) (auto simp: selector_misses_def)
  then show ?thesis using arrival_selector [OF p, of g options st] by simp
qed

lemma arrival_none:
  "(\<exists>c st1. arrival g tg options st = Inr (None, c, st1)) = selector_misses g tg options"
proof
  assume "\<exists>c st1. arrival g tg options st = Inr (None, c, st1)"
  then obtain c st1 where a: "arrival g tg options st = Inr (None, c, st1)" by blast
  then have t: "target g tg options st = None" using arrival_target by fastforce
  then obtain s where tg: "tg = TagString s" and p: "startsWith s ''<''"
    by (cases tg) (auto simp: target_def split: if_splits)
  show "selector_misses g tg options"
    using a tg p arrival_selector [OF p, of g options st]
    by (cases "lookup g options (slice 1 s)") (simp_all add: selector_misses_def del: One_nat_def)
next
  assume "selector_misses g tg options"
  then have "arrival g tg options st = Inr (None, False, st)" by (rule arrival_miss)
  then show "\<exists>c st1. arrival g tg options st = Inr (None, c, st1)" by blast
qed

lemma selector_misses_cong:
  "document_of options' = document_of options \<Longrightarrow>
   selector_misses g tg options' = selector_misses g tg options"
  using lookup_cong [of options' options g]
  by (cases tg) (simp_all add: selector_misses_def del: One_nat_def)

text \<open>
  C10: when the tag is a selector that matches nothing in the chosen document, the call
  returns null and the store is the store it was given: no node anywhere is mutated. The
  same holds for any other option bag with the same \<^verbatim>\<open>document\<close> field and for any list
  of children, so nothing but that field decides the outcome: no option is resolved and
  no child is appended.
\<close>

theorem selector_miss_is_atomic:
  assumes "selector_misses g tg options"
    and "document_of options' = document_of options"
  shows "configure g tg options' kids st = (Inr None, st)"
proof -
  have "selector_misses g tg options'"
    using assms selector_misses_cong by blast
  then have "arrival g tg options' st = Inr (None, False, st)"
    by (rule arrival_miss)
  then show ?thesis by (simp add: configure_arrival)
qed

lemma append_nodes_result:
  "append_nodes g a kids st = Inr st2 \<Longrightarrow> nodes st2 a = with_children kids (nodes st a)"
  by (auto simp: append_nodes_def with_children_def split: if_splits)

lemma append_nodes_fault:
  "(append_nodes g a kids st = Inl e)
     = (kids \<noteq> [] \<and> \<not> insertable g st a kids \<and> e = HierarchyRequestError)"
  by (auto simp: append_nodes_def)

text \<open>
  C3, corrected. The call returns null exactly when the tag is a selector string whose
  lookup in the chosen document matches nothing. When it returns a node, that is the node
  the call is about (the node passed in, the node the selector found, the node just
  created), every option has been resolved on it without an exception, and the store
  holds it with the children appended. The call ends in an exception exactly when the
  arrival at the node does (no document to choose, a value that is no document, a
  selector or a tag the document refuses, a hint without a string form), or resolving an
  option does, or the node does not take the children; and for a selector the arrival is
  the lookup.
\<close>

theorem configure_null_iff:
  "(fst (configure g tg options kids st) = Inr None) = selector_misses g tg options
   \<and> (fst (configure g tg options kids st) = Inr (Some a) \<longrightarrow>
        target g tg options st = Some a
        \<and> (\<exists>custom st1 n'.
              arrival g tg options st = Inr (Some a, custom, st1)
              \<and> resolve g custom (bag options) (map fst (bag options)) (nodes st1 a) = (n', None)
              \<and> nodes (snd (configure g tg options kids st)) a = with_children kids n'))
   \<and> ((fst (configure g tg options kids st) = Inl e) =
        (arrival g tg options st = Inl e
         \<or> (\<exists>b custom st1 n'.
              arrival g tg options st = Inr (Some b, custom, st1)
              \<and> (resolve g custom (bag options) (map fst (bag options)) (nodes st1 b)
                    = (n', Some e)
                  \<or> (resolve g custom (bag options) (map fst (bag options)) (nodes st1 b)
                        = (n', None)
                      \<and> kids \<noteq> [] \<and> \<not> insertable g (put_back b n' st1) b kids
                      \<and> e = HierarchyRequestError)))))
   \<and> (tg = TagString s \<and> startsWith s ''<'' \<longrightarrow>
        arrival g tg options st
          = (case lookup g options (slice 1 s) of
               Inl x \<Rightarrow> Inl x
             | Inr r \<Rightarrow> Inr (r, False, st)))"
proof -
  let ?c = "configure g tg options kids st"
  have sel: "tg = TagString s \<and> startsWith s ''<'' \<longrightarrow>
        arrival g tg options st
          = (case lookup g options (slice 1 s) of
               Inl x \<Rightarrow> Inl x
             | Inr r \<Rightarrow> Inr (r, False, st))"
    using arrival_selector by blast
  show ?thesis
  proof (cases "arrival g tg options st")
    case (Inl x)
    then have c: "?c = (Inl x, st)" by (simp add: configure_arrival)
    have "\<not> selector_misses g tg options"
      using Inl arrival_none [of g tg options st] by auto
    then show ?thesis using c Inl sel by auto
  next
    case (Inr t)
    obtain r custom st1 where t: "t = (r, custom, st1)" by (cases t)
    have ar: "arrival g tg options st = Inr (r, custom, st1)" using Inr t by simp
    have tr: "r = target g tg options st" using ar by (rule arrival_target)
    show ?thesis
    proof (cases r)
      case None
      then have c: "?c = (Inr None, st1)" using ar by (simp add: configure_arrival)
      have "selector_misses g tg options"
        using ar None arrival_none [of g tg options st] by blast
      then show ?thesis using c ar None sel by auto
    next
      case (Some b)
      have nm: "\<not> selector_misses g tg options"
        using ar Some arrival_none [of g tg options st] by auto
      obtain n' x where
        res: "resolve g custom (bag options) (map fst (bag options)) (nodes st1 b) = (n', x)"
        by (cases "resolve g custom (bag options) (map fst (bag options)) (nodes st1 b)")
      show ?thesis
      proof (cases x)
        case (Some e')
        then have c: "?c = (Inl e', put_back b n' st1)"
          using ar \<open>r = Some b\<close> res by (simp add: configure_arrival)
        show ?thesis using c ar \<open>r = Some b\<close> res Some nm sel by auto
      next
        case None
        show ?thesis
        proof (cases "append_nodes g b kids (put_back b n' st1)")
          case (Inl e')
          then have c: "?c = (Inl e', put_back b n' st1)"
            using ar \<open>r = Some b\<close> res None by (simp add: configure_arrival)
          have f: "kids \<noteq> [] \<and> \<not> insertable g (put_back b n' st1) b kids
                   \<and> e' = HierarchyRequestError"
            using Inl append_nodes_fault by blast
          show ?thesis using c ar \<open>r = Some b\<close> res None nm sel f by auto
        next
          case (Inr st2)
          then have c: "?c = (Inr (Some b), st2)"
            using ar \<open>r = Some b\<close> res None by (simp add: configure_arrival)
          have w: "nodes st2 b = with_children kids n'"
            using append_nodes_result [OF Inr] by (simp add: put_back_def)
          have nf: "\<not> (kids \<noteq> [] \<and> \<not> insertable g (put_back b n' st1) b kids)"
            using Inr append_nodes_fault [of g b kids "put_back b n' st1" HierarchyRequestError]
            by auto
          show ?thesis using c ar \<open>r = Some b\<close> tr res None nm sel w nf by auto
        qed
      qed
    qed
  qed
qed

lemma missing_lookup: "lookup browser None ''#missing'' = Inr None"
  by (simp add: lookup_def choose_document_def as_document_def bag_def get_prop_def
      browser_def plain_def page_def)

theorem selector_miss_is_atomic_witness:
  "selector_misses browser (TagString ''<#missing'') None
   \<and> document_of (Some [(SKey ''aria'', Undefined), (SKey ''class'', Str ''a'')]) = document_of None
   \<and> configure browser (TagString ''<#missing'')
         (Some [(SKey ''aria'', Undefined), (SKey ''class'', Str ''a'')]) [ChildText ''x''] store0
       = (Inr None, store0)"
proof -
  have a: "selector_misses browser (TagString ''<#missing'') None"
    by (simp add: selector_misses_def missing_lookup)
  have b: "document_of (Some [(SKey ''aria'', Undefined), (SKey ''class'', Str ''a'')]) = document_of None"
    by (simp add: document_of_def bag_def get_prop_def)
  show ?thesis
    using a b selector_miss_is_atomic [OF a b, of "[ChildText ''x'']" store0] by simp
qed

text \<open>
  A selector without a match; the tag \<^verbatim>\<open>div\<close> with a class and a text child; a selector with
  a match; the empty selector, which the lookup refuses; a tag that is no name; and a node
  given to itself as a child.
\<close>

theorem configure_null_iff_witness:
  "selector_misses browser (TagString ''<#missing'') None
   \<and> fst (configure browser (TagString ''<#missing'') None [ChildText ''x''] store0) = Inr None
   \<and> fst (configure browser (TagString ''div'') (Some [(SKey ''class'', Str ''a'')])
            [ChildText ''x''] store0) = Inr (Some 2)
   \<and> target browser (TagString ''div'') (Some [(SKey ''class'', Str ''a'')]) store0 = Some 2
   \<and> attrs (nodes (snd (configure browser (TagString ''div'') (Some [(SKey ''class'', Str ''a'')])
                          [ChildText ''x''] store0)) 2) ''class'' = Some ''a''
   \<and> children (nodes (snd (configure browser (TagString ''div'')
                             (Some [(SKey ''class'', Str ''a'')]) [ChildText ''x''] store0)) 2)
       = [ChildText ''x'']
   \<and> fst (configure browser (TagString ''<#app'') None [] store0) = Inr (Some 0)
   \<and> target browser (TagString ''<#app'') None store0 = Some 0
   \<and> lookup browser None [] = Inl SyntaxError
   \<and> arrival browser (TagString ''<'') None store0 = Inl SyntaxError
   \<and> fst (configure browser (TagString ''<'') None [] store0) = Inl SyntaxError
   \<and> fst (configure browser (TagString ''a b'') None [] store0) = Inl InvalidCharacterError
   \<and> fst (configure browser (TagNode 1) None [ChildNode 1] store0) = Inl HierarchyRequestError"
proof -
  have a: "selector_misses browser (TagString ''<#missing'') None"
    by (simp add: selector_misses_def missing_lookup)
  have b: "fst (configure browser (TagString ''div'') (Some [(SKey ''class'', Str ''a'')])
            [ChildText ''x''] store0) = Inr (Some 2)"
    by code_simp
  have c: "attrs (nodes (snd (configure browser (TagString ''div'')
                 (Some [(SKey ''class'', Str ''a'')]) [ChildText ''x''] store0)) 2) ''class''
             = Some ''a''"
    by code_simp
  have d: "children (nodes (snd (configure browser (TagString ''div'')
                             (Some [(SKey ''class'', Str ''a'')]) [ChildText ''x''] store0)) 2)
       = [ChildText ''x'']"
    by code_simp
  have e: "fst (configure browser (TagString ''<#app'') None [] store0) = Inr (Some 0)"
    by code_simp
  have f: "lookup browser None [] = Inl SyntaxError"
    by (simp add: lookup_def choose_document_def as_document_def bag_def get_prop_def
        browser_def plain_def page_def)
  have h: "fst (configure browser (TagString ''a b'') None [] store0) = Inl InvalidCharacterError"
    by code_simp
  have i: "fst (configure browser (TagNode 1) None [ChildNode 1] store0) = Inl HierarchyRequestError"
    by code_simp
  have p: "startsWith ''<'' ''<''" "slice 1 ''<'' = []"
    by (simp_all add: slice_def)
  show ?thesis
    using a b c d e f h i p
      configure_null_iff [of browser "TagString ''<#missing''" None "[ChildText ''x'']" store0]
      configure_null_iff [of browser "TagString ''div''" "Some [(SKey ''class'', Str ''a'')]"
        "[ChildText ''x'']" store0 2]
      configure_null_iff [of browser "TagString ''<#app''" None "[]" store0 0]
      configure_null_iff [of browser "TagString ''<''" None "[]" store0 _ SyntaxError "''<''"]
    by simp
qed

text \<open>
  C3 as stated fails at the tag \<^verbatim>\<open>div\<close> with the options \<^verbatim>\<open>{ aria: undefined }\<close>: the input is
  no selector, and the call does not return the configured node; \<^verbatim>\<open>Reflect.ownKeys\<close> of
  undefined throws a TypeError at line 55, which leaves the call.
\<close>

theorem throwing_options_counterexample:
  "\<not> selector_misses browser (TagString ''div'') (Some [(SKey ''aria'', Undefined)])
   \<and> fst (configure browser (TagString ''div'') (Some [(SKey ''aria'', Undefined)]) [] store0)
       = Inl TypeError"
proof (intro conjI)
  show "\<not> selector_misses browser (TagString ''div'') (Some [(SKey ''aria'', Undefined)])"
    by (simp add: selector_misses_def)
  show "fst (configure browser (TagString ''div'') (Some [(SKey ''aria'', Undefined)]) [] store0)
       = Inl TypeError"
    by code_simp
qed

text \<open>
  C2 at a concrete input: an existing node of a foreign namespace, which has no
  \<^verbatim>\<open>style\<close> member, with the options \<^verbatim>\<open>{ style: "color:red" }\<close>. The named-intent rule
  reads \<^verbatim>\<open>isSVG\<close> at line 68, outside the block that declares it, and the call ends in a
  ReferenceError; no attribute and no style text is written. Were a global of that name
  bound to a falsy value, line 69 would read \<^verbatim>\<open>node.style\<close>, undefined on such a node,
  and end in a TypeError.
\<close>

theorem style_intent_raises:
  "\<not> has bare_node (SKey ''style'')
   \<and> resolve_pair browser (SKey ''style'') (Str ''color:red'') bare_node
       = (bare_node, Some ReferenceError)
   \<and> fst (configure browser (TagNode 1) (Some [(SKey ''style'', Str ''color:red'')]) [] store0)
       = Inl ReferenceError
   \<and> resolve_pair (browser\<lparr>global_isSVG := Some (Bool False)\<rparr>) (SKey ''style'')
         (Str ''color:red'') bare_node
       = (bare_node, Some TypeError)"
proof -
  have a: "\<not> has bare_node (SKey ''style'')"
    by (simp add: has_def bare_node_def)
  have b: "resolve_pair browser (SKey ''style'') (Str ''color:red'') bare_node
       = (bare_node, Some ReferenceError)"
    using a by (simp add: resolve_pair_def style_intent_def browser_def plain_def)
  have c: "fst (configure browser (TagNode 1) (Some [(SKey ''style'', Str ''color:red'')]) [] store0)
       = Inl ReferenceError"
    by code_simp
  have d: "resolve_pair (browser\<lparr>global_isSVG := Some (Bool False)\<rparr>) (SKey ''style'')
         (Str ''color:red'') bare_node = (bare_node, Some TypeError)"
    using a by (simp add: resolve_pair_def style_intent_def set_cssText_def finish_def)
  show ?thesis using a b c d by simp
qed

section \<open>When resolving raises\<close>

















end
